theory Spec2Isabelle
  imports Main "HOL-Library.AList"
begin

section \<open>Strings as the source uses them\<close>

text \<open>
  The tool is TypeScript. Its strings are modelled as \<^typ>\<open>string\<close>, a character being a
  code unit below 256 (Latin-1); text with other characters is outside the model. The
  regular expressions of the source have no \<^verbatim>\<open>u\<close> flag, so \<^verbatim>\<open>\w\<close> and the
  \<^verbatim>\<open>i\<close> flag only concern ASCII letters, digits and the underscore.
\<close>

abbreviation bslash :: char where "bslash \<equiv> CHR 0x5C"
abbreviation dquote :: char where "dquote \<equiv> CHR 0x22"
abbreviation squote :: char where "squote \<equiv> CHR 0x27"
abbreviation newline :: char where "newline \<equiv> CHR 0x0A"

definition is_upper :: "char \<Rightarrow> bool" where
  "is_upper c = (c \<in> set ''ABCDEFGHIJKLMNOPQRSTUVWXYZ'')"

definition is_lower :: "char \<Rightarrow> bool" where
  "is_lower c = (c \<in> set ''abcdefghijklmnopqrstuvwxyz'')"

definition is_digit :: "char \<Rightarrow> bool" where
  "is_digit c = (c \<in> set ''0123456789'')"

text \<open>The class \<^verbatim>\<open>\w\<close>: letters, digits and the underscore.\<close>

definition is_word :: "char \<Rightarrow> bool" where
  "is_word c = (is_upper c \<or> is_lower c \<or> is_digit c \<or> c = CHR ''_'')"

text \<open>The class \<^verbatim>\<open>\s\<close> (also what \<^verbatim>\<open>trim\<close> strips): space, tab, line feed,
  vertical tab, form feed, carriage return and the no-break space.\<close>

definition is_space :: "char \<Rightarrow> bool" where
  "is_space c = (c \<in> {CHR '' '', CHR 0x09, CHR 0x0A, CHR 0x0B, CHR 0x0C, CHR 0x0D, CHR 0xA0})"

text \<open>\<^verbatim>\<open>toLowerCase\<close>: the letters A to Z, and the upper-case letters of Latin-1
  (192 to 222, without the multiplication sign 215), move up by 32.\<close>

definition toLowerChar :: "char \<Rightarrow> char" where
  "toLowerChar c =
     (let n = (of_char c :: nat)
      in if is_upper c \<or> (192 \<le> n \<and> n \<le> 222 \<and> n \<noteq> 215) then char_of (n + 32) else c)"

definition toLowerCase :: "string \<Rightarrow> string" where
  "toLowerCase s = map toLowerChar s"

definition trim :: "string \<Rightarrow> string" where
  "trim s = rev (dropWhile is_space (rev (dropWhile is_space s)))"

text \<open>\<^verbatim>\<open>s.includes(t)\<close>: \<open>t\<close> occurs in \<open>s\<close> as a contiguous block.\<close>

fun str_includes :: "string \<Rightarrow> string \<Rightarrow> bool" where
  "str_includes [] t = (t = [])"
| "str_includes (c # cs) t = (take (length t) (c # cs) = t \<or> str_includes cs t)"

text \<open>\<^verbatim>\<open>s.replace(/c/g, r)\<close> for a one-character pattern \<open>c\<close>.\<close>

definition replaceAll :: "char \<Rightarrow> string \<Rightarrow> string \<Rightarrow> string" where
  "replaceAll c r s = concat (map (\<lambda>x. if x = c then r else [x]) s)"

text \<open>\<^verbatim>\<open>xs.join(sep)\<close>.\<close>

fun join :: "string \<Rightarrow> string list \<Rightarrow> string" where
  "join sep [] = []"
| "join sep [x] = x"
| "join sep (x # y # ys) = x @ sep @ join sep (y # ys)"

text \<open>Decimal rendering of a number inside a template string.\<close>

definition digit_char :: "nat \<Rightarrow> char" where
  "digit_char d = ''0123456789'' ! (d mod 10)"

function showNat :: "nat \<Rightarrow> string" where
  "showNat n = (if n < 10 then [digit_char n] else showNat (n div 10) @ [digit_char (n mod 10)])"
  by pat_completeness auto
termination
  by (relation "measure id") auto

declare showNat.simps [simp del]

text \<open>\<^verbatim>\<open>s.split(/\s+/)\<close>: the pieces between maximal runs of white space; a leading
  or trailing run leaves an empty piece, and the empty string gives one empty piece.\<close>

function splitWs :: "string \<Rightarrow> string list" where
  "splitWs s =
     (case dropWhile (\<lambda>c. \<not> is_space c) s of
        [] \<Rightarrow> [s]
      | r # rest \<Rightarrow> takeWhile (\<lambda>c. \<not> is_space c) s # splitWs (dropWhile is_space rest))"
  by pat_completeness auto
termination
proof (relation "measure length", goal_cases)
  case 1
  show ?case by simp
next
  case (2 s r rest)
  have "length (dropWhile is_space rest) \<le> length rest"
    by (rule length_dropWhile_le)
  moreover have "length (dropWhile (\<lambda>c. \<not> is_space c) s) \<le> length s"
    by (rule length_dropWhile_le)
  ultimately show ?case using 2 by simp
qed

declare splitWs.simps [simp del]

section \<open>Key derivation: \<^verbatim>\<open>generateAnswerKey\<close>\<close>

text \<open>
  \<^verbatim>\<open>prompt.match(pattern)\<close> without the \<^verbatim>\<open>g\<close> flag tries the pattern at every
  start position from the left and returns the first success; \<open>regex_search\<close> is that
  scan, its argument the match of one pattern anchored at the head of the remaining text,
  giving capture group 1.
\<close>

fun regex_search :: "(string \<Rightarrow> string option) \<Rightarrow> string \<Rightarrow> string option" where
  "regex_search m [] = m []"
| "regex_search m (c # cs) = (case m (c # cs) of Some g \<Rightarrow> Some g | None \<Rightarrow> regex_search m cs)"

text \<open>A literal of the pattern under the \<^verbatim>\<open>i\<close> flag, anchored at the head.\<close>

definition prefix_ci :: "string \<Rightarrow> string \<Rightarrow> bool" where
  "prefix_ci p s = (length p \<le> length s \<and> toLowerCase (take (length p) s) = toLowerCase p)"

text \<open>\<^verbatim>\<open>(\w+)\<close> as the last item of a pattern: the longest run of word characters.\<close>

definition word_run :: "string \<Rightarrow> string" where
  "word_run s = takeWhile is_word s"

text \<open>
  \<^verbatim>\<open>/kw (?:a1 |a2 )?(\w+)/i\<close> anchored at the head: the keyword, then the first
  alternative after which a word follows, else no alternative at all (the optional group
  is greedy and backtracks), then the word.
\<close>

definition match_phrase :: "string \<Rightarrow> string list \<Rightarrow> string \<Rightarrow> string option" where
  "match_phrase kw alts s =
     (if prefix_ci kw s then
        (let r = drop (length kw) s in
         case find (\<lambda>a. prefix_ci a r \<and> word_run (drop (length a) r) \<noteq> []) alts of
           Some a \<Rightarrow> Some (word_run (drop (length a) r))
         | None \<Rightarrow> if word_run r \<noteq> [] then Some (word_run r) else None)
      else None)"

text \<open>
  \<^verbatim>\<open>/(\w+):/i\<close> and \<^verbatim>\<open>/(\w+)\?/i\<close> anchored at the head: the longest run of word
  characters, directly followed by the delimiter (a shorter run is followed by a word
  character, so backtracking finds nothing more).
\<close>

definition match_word_before :: "char \<Rightarrow> string \<Rightarrow> string option" where
  "match_word_before d s =
     (let w = word_run s in
      case drop (length w) s of
        [] \<Rightarrow> None
      | c # _ \<Rightarrow> if w \<noteq> [] \<and> c = d then Some w else None)"

definition patterns :: "(string \<Rightarrow> string option) list" where
  "patterns =
     [match_phrase ''what is '' [''your '', ''the ''],
      match_phrase ''enter '' [''your '', ''the ''],
      match_phrase ''choose '' [''your '', ''a ''],
      match_phrase ''select '' [''your '', ''a ''],
      match_phrase ''provide '' [''your '', ''the ''],
      match_word_before (CHR '':''),
      match_word_before (CHR ''?'')]"

text \<open>The loop over the patterns: the first one with a non-empty group 1 gives the key.\<close>

fun first_pattern_key :: "(string \<Rightarrow> string option) list \<Rightarrow> string \<Rightarrow> string option" where
  "first_pattern_key [] prompt = None"
| "first_pattern_key (p # ps) prompt =
     (case regex_search p prompt of
        Some g \<Rightarrow> if g \<noteq> [] then Some (toLowerCase g) else first_pattern_key ps prompt
      | None \<Rightarrow> first_pattern_key ps prompt)"

definition stop_words :: "string list" where
  "stop_words = [''what'', ''enter'', ''your'', ''the'', ''please'', ''choose'', ''select'']"

definition significantWord :: "string \<Rightarrow> string option" where
  "significantWord prompt =
     find (\<lambda>w. length w > 3 \<and> w \<notin> set stop_words) (splitWs (toLowerCase prompt))"

definition generateAnswerKey :: "string \<Rightarrow> nat \<Rightarrow> string" where
  "generateAnswerKey prompt index =
     (case first_pattern_key patterns prompt of
        Some k \<Rightarrow> k
      | None \<Rightarrow>
          (case significantWord prompt of
             Some w \<Rightarrow> if w \<noteq> [] then w else ''answer'' @ showNat (index + 1)
           | None \<Rightarrow> ''answer'' @ showNat (index + 1)))"

section \<open>The escapers\<close>

text \<open>
  The source has no escaping function of its own: each adapter escapes inline with a chain
  of \<^verbatim>\<open>replace\<close> calls, and the same three chains recur. They are named here.
  \<^item> \<open>escapeAppleScript\<close>: the chain of \<^verbatim>\<open>showMacOSDialog\<close> and
    \<^verbatim>\<open>showMacOSDropdown\<close> (backslash, double quote, single quote, newline);
  \<^item> \<open>escapePowerShell\<close>: the chain of \<^verbatim>\<open>showWindowsDialog\<close> and
    \<^verbatim>\<open>showWindowsDropdown\<close> (single quote only);
  \<^item> \<open>escapeDoubleQuoted\<close>: the chain of the zenity, kdialog and terminal adapters, also
    applied to the PowerShell script as a whole (double quote only).
\<close>

definition escapeAppleScript :: "string \<Rightarrow> string" where
  "escapeAppleScript s =
     replaceAll newline '' ''
       (replaceAll squote [squote, bslash, squote, squote]
          (replaceAll dquote [bslash, dquote]
             (replaceAll bslash [bslash, bslash] s)))"

definition escapePowerShell :: "string \<Rightarrow> string" where
  "escapePowerShell s = replaceAll squote [squote, squote] s"

definition escapeDoubleQuoted :: "string \<Rightarrow> string" where
  "escapeDoubleQuoted s = replaceAll dquote [bslash, dquote] s"

section \<open>External processes\<close>

text \<open>
  An error object of the runtime: its \<^verbatim>\<open>message\<close>, and the exit status that
  \<^verbatim>\<open>child_process.exec\<close> attaches to the error of a failed command (absent on an
  error the tool creates itself with \<^verbatim>\<open>new Error\<close>).
\<close>

record js_error =
  message :: string
  exit_status :: "nat option"

definition Error :: "string \<Rightarrow> js_error" where
  "Error m = \<lparr>message = m, exit_status = None\<rparr>"

text \<open>A command handed to \<^verbatim>\<open>execAsync\<close>, in the default shell or with
  \<^verbatim>\<open>{shell: '/bin/bash'}\<close>.\<close>

datatype spawn = DefaultShell string | BinBash string

text \<open>
  The world outside the tool: \<open>runner\<close> answers a command, given the commands run so far,
  with the standard output of the process or with the error of a failed one; \<open>spawned\<close>
  is the list of commands run so far. Every external process of the tool goes through
  \<open>execAsync\<close>, which appends to that list.
\<close>

record world =
  runner :: "spawn list \<Rightarrow> spawn \<Rightarrow> js_error + string"
  spawned :: "spawn list"

definition execAsync :: "spawn \<Rightarrow> world \<Rightarrow> (js_error + string) \<times> world" where
  "execAsync p w = (runner w (spawned w) p, w\<lparr>spawned := spawned w @ [p]\<rparr>)"

text \<open>\<^verbatim>\<open>x || d\<close> on an optional string: \<open>d\<close> when \<open>x\<close> is undefined or empty.\<close>

definition orDefault :: "string option \<Rightarrow> string \<Rightarrow> string" where
  "orDefault x d = (case x of None \<Rightarrow> d | Some s \<Rightarrow> if s = [] then d else s)"

definition truthy :: "string option \<Rightarrow> bool" where
  "truthy x = (case x of None \<Rightarrow> False | Some s \<Rightarrow> s \<noteq> [])"

section \<open>Text and password adapters\<close>

text \<open>
  Each adapter is given in two parts: the command line it builds from its arguments, and
  the function that runs that command and reads the outcome.
\<close>

definition macOSDialogCommand ::
  "string \<Rightarrow> string option \<Rightarrow> string option \<Rightarrow> bool \<Rightarrow> string" where
  \<open>macOSDialogCommand prompt defaultValue title password =
     (let escapedPrompt = escapeAppleScript prompt;
          escapedTitle = escapeAppleScript (orDefault title ''Input Required'');
          escapedDefault = escapeAppleScript (orDefault defaultValue []);
          script =
            (if password then
               ''osascript -e '' @ [squote] @ ''tell application "System Events" to display dialog "'' @ escapedPrompt @
               ''" default answer "" with title "'' @ escapedTitle @ ''" with hidden answer'' @ [squote] @
               '' -e '' @ [squote] @ ''text returned of result'' @ [squote]
             else
               ''osascript -e '' @ [squote] @ ''tell application "System Events" to display dialog "'' @ escapedPrompt @
               ''" default answer "'' @ escapedDefault @ ''" with title "'' @ escapedTitle @ ''"'' @ [squote] @
               '' -e '' @ [squote] @ ''text returned of result'' @ [squote])
      in script)\<close>

definition showMacOSDialog ::
  "string \<Rightarrow> string option \<Rightarrow> string option \<Rightarrow> bool \<Rightarrow> world \<Rightarrow> (js_error + string) \<times> world" where
  \<open>showMacOSDialog prompt defaultValue title password w =
     (case execAsync (DefaultShell (macOSDialogCommand prompt defaultValue title password)) w of
           (Inr stdout, w') \<Rightarrow> (Inr (trim stdout), w')
         | (Inl e, w') \<Rightarrow>
             if str_includes (message e) ''User canceled''
             then (Inl (Error ''User cancelled the input dialog''), w')
             else (Inl e, w'))\<close>

definition windowsDialogCommand ::
  "string \<Rightarrow> string option \<Rightarrow> string option \<Rightarrow> bool \<Rightarrow> string" where
  \<open>windowsDialogCommand prompt defaultValue title password =
     (let escapedPrompt = escapePowerShell prompt;
          escapedTitle = escapePowerShell (orDefault title ''Input Required'');
          escapedDefault = escapePowerShell (orDefault defaultValue []);
          script =
            (if password then
               ''\<newline>'' @
               ''            Add-Type -AssemblyName Microsoft.VisualBasic\<newline>'' @
               ''            $secure = Read-Host '' @ [squote] @ escapedPrompt @ [squote] @ '' -AsSecureString\<newline>'' @
               ''            $BSTR = [System.Runtime.InteropServices.Marshal]::SecureStringToBSTR($secure)\<newline>'' @
               ''            $plain = [System.Runtime.InteropServices.Marshal]::PtrToStringAuto($BSTR)\<newline>'' @
               ''            Write-Output $plain\<newline>'' @
               ''        ''
             else
               ''\<newline>'' @
               ''            Add-Type -AssemblyName Microsoft.VisualBasic\<newline>'' @
               ''            [Microsoft.VisualBasic.Interaction]::InputBox('' @ [squote] @ escapedPrompt @ [squote] @
               '', '' @ [squote] @ escapedTitle @ [squote] @ '', '' @ [squote] @ escapedDefault @ [squote] @ '')\<newline>'' @
               ''        '')
      in ''powershell -Command "'' @ escapeDoubleQuoted script @ ''"'')\<close>

definition showWindowsDialog ::
  "string \<Rightarrow> string option \<Rightarrow> string option \<Rightarrow> bool \<Rightarrow> world \<Rightarrow> (js_error + string) \<times> world" where
  \<open>showWindowsDialog prompt defaultValue title password w =
     (case execAsync (DefaultShell (windowsDialogCommand prompt defaultValue title password)) w of
           (Inr stdout, w') \<Rightarrow>
             if trim stdout = [] then (Inl (Error ''User cancelled the input dialog''), w')
             else (Inr (trim stdout), w')
         | (Inl e, w') \<Rightarrow> (Inl e, w'))\<close>

definition zenityDialogCommand ::
  "string \<Rightarrow> string option \<Rightarrow> string option \<Rightarrow> bool \<Rightarrow> string" where
  \<open>zenityDialogCommand prompt defaultValue title password =
     (let args =
            [''zenity'', ''--entry'',
             ''--text="'' @ escapeDoubleQuoted prompt @ ''"'',
             ''--title="'' @ escapeDoubleQuoted (orDefault title ''Input Required'') @ ''"'']
            @ (if truthy defaultValue
               then [''--entry-text="'' @ escapeDoubleQuoted (the defaultValue) @ ''"''] else [])
            @ (if password then [''--hide-text''] else [])
      in join '' '' args)\<close>

definition showZenityDialog ::
  "string \<Rightarrow> string option \<Rightarrow> string option \<Rightarrow> bool \<Rightarrow> world \<Rightarrow> (js_error + string) \<times> world" where
  \<open>showZenityDialog prompt defaultValue title password w =
     (case execAsync (DefaultShell (zenityDialogCommand prompt defaultValue title password)) w of
           (Inr stdout, w') \<Rightarrow> (Inr (trim stdout), w')
         | (Inl e, w') \<Rightarrow>
             if str_includes (message e) ''code 1'' \<or> str_includes (message e) ''code 255''
             then (Inl (Error ''User cancelled the input dialog''), w')
             else (Inl e, w'))\<close>

definition kdialogDialogCommand ::
  "string \<Rightarrow> string option \<Rightarrow> string option \<Rightarrow> bool \<Rightarrow> string" where
  \<open>kdialogDialogCommand prompt defaultValue title password =
     (let args =
            [''kdialog'',
             if password then ''--password'' else ''--inputbox'',
             ''"'' @ escapeDoubleQuoted prompt @ ''"'',
             if truthy defaultValue then ''"'' @ escapeDoubleQuoted (the defaultValue) @ ''"'' else ''""'',
             ''--title "'' @ escapeDoubleQuoted (orDefault title ''Input Required'') @ ''"'']
      in join '' '' args)\<close>

definition showKdialogDialog ::
  "string \<Rightarrow> string option \<Rightarrow> string option \<Rightarrow> bool \<Rightarrow> world \<Rightarrow> (js_error + string) \<times> world" where
  \<open>showKdialogDialog prompt defaultValue title password w =
     (case execAsync (DefaultShell (kdialogDialogCommand prompt defaultValue title password)) w of
           (Inr stdout, w') \<Rightarrow> (Inr (trim stdout), w')
         | (Inl e, w') \<Rightarrow>
             if str_includes (message e) ''code 1''
             then (Inl (Error ''User cancelled the input dialog''), w')
             else (Inl e, w'))\<close>

definition terminalInputCommand ::
  "string \<Rightarrow> string option \<Rightarrow> bool \<Rightarrow> string" where
  \<open>terminalInputCommand prompt defaultValue password =
     (let script =
            (if password then
               ''read -s -p "'' @ escapeDoubleQuoted prompt @ '': " input && echo "$input"''
             else
               ''read -p "'' @ escapeDoubleQuoted prompt @ '' ['' @ orDefault defaultValue [] @
               '']: " input && echo "${input:-'' @ orDefault defaultValue [] @ ''}"'')
      in script)\<close>

definition showTerminalInput ::
  "string \<Rightarrow> string option \<Rightarrow> bool \<Rightarrow> world \<Rightarrow> (js_error + string) \<times> world" where
  \<open>showTerminalInput prompt defaultValue password w =
     (case execAsync (BinBash (terminalInputCommand prompt defaultValue password)) w of
           (Inr stdout, w') \<Rightarrow> (Inr (trim stdout), w')
         | (Inl e, w') \<Rightarrow> (Inl (Error ''Failed to read input from terminal''), w'))\<close>

text \<open>
  The Linux dispatcher: a \<^verbatim>\<open>try\<close> around the zenity probe and adapter, whose
  \<^verbatim>\<open>catch\<close> clause holds a second \<^verbatim>\<open>try\<close> around the kdialog probe and adapter,
  whose \<^verbatim>\<open>catch\<close> clause calls the terminal adapter. Both \<^verbatim>\<open>catch\<close> clauses are
  bare: an error of the probe and an error of the adapter itself (a cancellation included)
  alike lead to the next mechanism. \<open>kdialogOrTerminal\<close> is the outer \<^verbatim>\<open>catch\<close> clause.
\<close>

definition kdialogOrTerminal ::
  "string \<Rightarrow> string option \<Rightarrow> string option \<Rightarrow> bool \<Rightarrow> world \<Rightarrow> (js_error + string) \<times> world" where
  "kdialogOrTerminal prompt defaultValue title password w =
     (case execAsync (DefaultShell ''which kdialog'') w of
        (Inr _, w1) \<Rightarrow>
          (case showKdialogDialog prompt defaultValue title password w1 of
             (Inr r, w2) \<Rightarrow> (Inr r, w2)
           | (Inl _, w2) \<Rightarrow> showTerminalInput prompt defaultValue password w2)
      | (Inl _, w1) \<Rightarrow> showTerminalInput prompt defaultValue password w1)"

definition showLinuxDialog ::
  "string \<Rightarrow> string option \<Rightarrow> string option \<Rightarrow> bool \<Rightarrow> world \<Rightarrow> (js_error + string) \<times> world" where
  "showLinuxDialog prompt defaultValue title password w =
     (case execAsync (DefaultShell ''which zenity'') w of
        (Inr _, w1) \<Rightarrow>
          (case showZenityDialog prompt defaultValue title password w1 of
             (Inr r, w2) \<Rightarrow> (Inr r, w2)
           | (Inl _, w2) \<Rightarrow> kdialogOrTerminal prompt defaultValue title password w2)
      | (Inl _, w1) \<Rightarrow> kdialogOrTerminal prompt defaultValue title password w1)"

section \<open>Dropdown adapters\<close>

text \<open>\<^verbatim>\<open>s.split('\n')\<close>, \<^verbatim>\<open>xs.indexOf(x)\<close> and the index of each element, as
  \<^verbatim>\<open>map((opt, idx) => ...)\<close> passes it.\<close>

fun splitChar :: "char \<Rightarrow> string \<Rightarrow> string list" where
  "splitChar d [] = [[]]"
| "splitChar d (c # cs) =
     (if c = d then [] # splitChar d cs
      else (case splitChar d cs of [] \<Rightarrow> [[c]] | x # xs \<Rightarrow> (c # x) # xs))"

fun indexOf :: "'a list \<Rightarrow> 'a \<Rightarrow> nat option" where
  "indexOf [] x = None"
| "indexOf (y # ys) x = (if y = x then Some 0 else map_option Suc (indexOf ys x))"

definition indexed :: "'a list \<Rightarrow> (nat \<times> 'a) list" where
  "indexed xs = zip [0..<length xs] xs"

text \<open>
  \<^verbatim>\<open>defaultValue || options[0]\<close> is undefined when there is no default and no option;
  the \<^verbatim>\<open>replace\<close> on it then throws a TypeError, before any process is run.
\<close>

definition macOSDropdownCommand ::
  "string \<Rightarrow> string list \<Rightarrow> string \<Rightarrow> string option \<Rightarrow> string" where
  \<open>macOSDropdownCommand prompt options defaultOption title =
     (let escapedPrompt = escapeAppleScript prompt;
          escapedTitle = escapeAppleScript (orDefault title ''Select Option'');
          escapedOptions = join '', '' (map (\<lambda>opt. ''"'' @ escapeAppleScript opt @ ''"'') options);
          escapedDefault = escapeAppleScript defaultOption
      in ''osascript -e '' @ [squote] @ ''tell application "System Events" to choose from list {'' @
         escapedOptions @ ''} with prompt "'' @ escapedPrompt @ ''" with title "'' @ escapedTitle @
         ''" default items {"'' @ escapedDefault @ ''"}'' @ [squote] @
         '' -e '' @ [squote] @ ''item 1 of result'' @ [squote])\<close>

definition showMacOSDropdown ::
  "string \<Rightarrow> string list \<Rightarrow> string option \<Rightarrow> string option \<Rightarrow> world \<Rightarrow> (js_error + string) \<times> world" where
  \<open>showMacOSDropdown prompt options defaultValue title w =
     (case (if truthy defaultValue then defaultValue
            else case options of [] \<Rightarrow> None | opt # _ \<Rightarrow> Some opt) of
        None \<Rightarrow>
          (Inl (Error (''Cannot read properties of undefined (reading '' @ [squote] @ ''replace'' @ [squote] @ '')'')), w)
      | Some defaultOption \<Rightarrow>
          (case execAsync (DefaultShell (macOSDropdownCommand prompt options defaultOption title)) w of
             (Inr stdout, w') \<Rightarrow> (Inr (trim stdout), w')
           | (Inl e, w') \<Rightarrow>
               if str_includes (message e) ''User canceled''
               then (Inl (Error ''User cancelled the selection dialog''), w')
               else (Inl e, w')))\<close>

definition windowsDropdownCommand ::
  "string \<Rightarrow> string list \<Rightarrow> string option \<Rightarrow> string option \<Rightarrow> string" where
  \<open>windowsDropdownCommand prompt options defaultValue title =
     (let escapedPrompt = escapePowerShell prompt;
          escapedTitle = escapePowerShell (orDefault title ''Select Option'');
          optionsArray = join '','' (map (\<lambda>opt. [squote] @ escapePowerShell opt @ [squote]) options);
          selection =
            (if truthy defaultValue
             then ''$comboBox.SelectedItem = '' @ [squote] @ escapePowerShell (the defaultValue) @ [squote]
             else ''$comboBox.SelectedIndex = 0'');
          script =
       ''\<newline>'' @
       ''        Add-Type -AssemblyName System.Windows.Forms\<newline>'' @
       ''        Add-Type -AssemblyName System.Drawing\<newline>'' @
       ''        \<newline>'' @
       ''        $form = New-Object System.Windows.Forms.Form\<newline>'' @
       ''        $form.Text = '' @ [squote] @ escapedTitle @ [squote] @ ''\<newline>'' @
       ''        $form.Size = New-Object System.Drawing.Size(350,200)\<newline>'' @
       ''        $form.StartPosition = '' @ [squote] @ ''CenterScreen'' @ [squote] @ ''\<newline>'' @
       ''        \<newline>'' @
       ''        $label = New-Object System.Windows.Forms.Label\<newline>'' @
       ''        $label.Location = New-Object System.Drawing.Point(10,20)\<newline>'' @
       ''        $label.Size = New-Object System.Drawing.Size(320,40)\<newline>'' @
       ''        $label.Text = '' @ [squote] @ escapedPrompt @ [squote] @ ''\<newline>'' @
       ''        $form.Controls.Add($label)\<newline>'' @
       ''        \<newline>'' @
       ''        $comboBox = New-Object System.Windows.Forms.ComboBox\<newline>'' @
       ''        $comboBox.Location = New-Object System.Drawing.Point(10,70)\<newline>'' @
       ''        $comboBox.Size = New-Object System.Drawing.Size(320,20)\<newline>'' @
       ''        $comboBox.DropDownStyle = '' @ [squote] @ ''DropDownList'' @ [squote] @ ''\<newline>'' @
       ''        @('' @ optionsArray @ '') | ForEach-Object { $comboBox.Items.Add($_) | Out-Null }\<newline>'' @
       ''        '' @ selection @ ''\<newline>'' @
       ''        $form.Controls.Add($comboBox)\<newline>'' @
       ''        \<newline>'' @
       ''        $okButton = New-Object System.Windows.Forms.Button\<newline>'' @
       ''        $okButton.Location = New-Object System.Drawing.Point(175,120)\<newline>'' @
       ''        $okButton.Size = New-Object System.Drawing.Size(75,23)\<newline>'' @
       ''        $okButton.Text = '' @ [squote] @ ''OK'' @ [squote] @ ''\<newline>'' @
       ''        $okButton.DialogResult = [System.Windows.Forms.DialogResult]::OK\<newline>'' @
       ''        $form.AcceptButton = $okButton\<newline>'' @
       ''        $form.Controls.Add($okButton)\<newline>'' @
       ''        \<newline>'' @
       ''        $cancelButton = New-Object System.Windows.Forms.Button\<newline>'' @
       ''        $cancelButton.Location = New-Object System.Drawing.Point(255,120)\<newline>'' @
       ''        $cancelButton.Size = New-Object System.Drawing.Size(75,23)\<newline>'' @
       ''        $cancelButton.Text = '' @ [squote] @ ''Cancel'' @ [squote] @ ''\<newline>'' @
       ''        $cancelButton.DialogResult = [System.Windows.Forms.DialogResult]::Cancel\<newline>'' @
       ''        $form.CancelButton = $cancelButton\<newline>'' @
       ''        $form.Controls.Add($cancelButton)\<newline>'' @
       ''        \<newline>'' @
       ''        $form.Topmost = $true\<newline>'' @
       ''        $result = $form.ShowDialog()\<newline>'' @
       ''        \<newline>'' @
       ''        if ($result -eq [System.Windows.Forms.DialogResult]::OK) {\<newline>'' @
       ''            Write-Output $comboBox.SelectedItem\<newline>'' @
       ''        }\<newline>'' @
       ''    ''
      in ''powershell -Command "'' @ escapeDoubleQuoted script @ ''"'')\<close>

definition showWindowsDropdown ::
  "string \<Rightarrow> string list \<Rightarrow> string option \<Rightarrow> string option \<Rightarrow> world \<Rightarrow> (js_error + string) \<times> world" where
  \<open>showWindowsDropdown prompt options defaultValue title w =
     (case execAsync (DefaultShell (windowsDropdownCommand prompt options defaultValue title)) w of
           (Inr stdout, w') \<Rightarrow>
             if trim stdout = [] then (Inl (Error ''User cancelled the selection dialog''), w')
             else (Inr (trim stdout), w')
         | (Inl e, w') \<Rightarrow> (Inl e, w'))\<close>

definition zenityDropdownCommand ::
  "string \<Rightarrow> string list \<Rightarrow> string option \<Rightarrow> string option \<Rightarrow> string" where
  \<open>zenityDropdownCommand prompt options defaultValue title =
     (let args =
            [''zenity'', ''--list'', ''--radiolist'',
             ''--text="'' @ escapeDoubleQuoted prompt @ ''"'',
             ''--title="'' @ escapeDoubleQuoted (orDefault title ''Select Option'') @ ''"'',
             ''--column=Select'', ''--column=Option'']
            @ concat (map (\<lambda>opt. [if Some opt = defaultValue then ''TRUE'' else ''FALSE'',
                                    ''"'' @ escapeDoubleQuoted opt @ ''"'']) options)
      in join '' '' args)\<close>

definition showZenityDropdown ::
  "string \<Rightarrow> string list \<Rightarrow> string option \<Rightarrow> string option \<Rightarrow> world \<Rightarrow> (js_error + string) \<times> world" where
  \<open>showZenityDropdown prompt options defaultValue title w =
     (case execAsync (DefaultShell (zenityDropdownCommand prompt options defaultValue title)) w of
           (Inr stdout, w') \<Rightarrow> (Inr (trim stdout), w')
         | (Inl e, w') \<Rightarrow>
             if str_includes (message e) ''code 1'' \<or> str_includes (message e) ''code 255''
             then (Inl (Error ''User cancelled the selection dialog''), w')
             else (Inl e, w'))\<close>

definition kdialogDropdownCommand ::
  "string \<Rightarrow> string list \<Rightarrow> string option \<Rightarrow> string option \<Rightarrow> string" where
  \<open>kdialogDropdownCommand prompt options defaultValue title =
     (let args =
            filter (\<lambda>arg. arg \<noteq> [])
              ([''kdialog'', ''--combobox'', ''"'' @ escapeDoubleQuoted prompt @ ''"'']
               @ map (\<lambda>opt. ''"'' @ escapeDoubleQuoted opt @ ''"'') options
               @ [''--title "'' @ escapeDoubleQuoted (orDefault title ''Select Option'') @ ''"'',
                  if truthy defaultValue
                  then ''--default "'' @ escapeDoubleQuoted (the defaultValue) @ ''"'' else []])
      in join '' '' args)\<close>

definition showKdialogDropdown ::
  "string \<Rightarrow> string list \<Rightarrow> string option \<Rightarrow> string option \<Rightarrow> world \<Rightarrow> (js_error + string) \<times> world" where
  \<open>showKdialogDropdown prompt options defaultValue title w =
     (case execAsync (DefaultShell (kdialogDropdownCommand prompt options defaultValue title)) w of
           (Inr stdout, w') \<Rightarrow> (Inr (trim stdout), w')
         | (Inl e, w') \<Rightarrow>
             if str_includes (message e) ''code 1''
             then (Inl (Error ''User cancelled the selection dialog''), w')
             else (Inl e, w'))\<close>

definition terminalDropdownCommand ::
  "string \<Rightarrow> string list \<Rightarrow> string option \<Rightarrow> string" where
  \<open>terminalDropdownCommand prompt options defaultValue =
     (let optionsList = join [newline] (map (\<lambda>(idx, opt). showNat (idx + 1) @ '') '' @ opt) (indexed options));
          defaultIndex =
            (if truthy defaultValue
             then (case indexOf options (the defaultValue) of None \<Rightarrow> 0 | Some idx \<Rightarrow> idx + 1)
             else 1);
          script =
       ''\<newline>'' @
       ''        echo "'' @ escapeDoubleQuoted prompt @ ''"\<newline>'' @
       ''        echo ""\<newline>'' @
       ''        '' @ join [newline] (map (\<lambda>line. ''echo "'' @ line @ ''"'') (splitChar newline optionsList)) @ ''\<newline>'' @
       ''        echo ""\<newline>'' @
       ''        read -p "Select option ['' @ showNat defaultIndex @ '']: " selection\<newline>'' @
       ''        selection=${selection:-'' @ showNat defaultIndex @ ''}\<newline>'' @
       ''        \<newline>'' @
       ''        case $selection in\<newline>'' @
       ''            '' @ join (newline # ''            '')
                            (map (\<lambda>(idx, opt). showNat (idx + 1) @ '') echo "'' @ escapeDoubleQuoted opt @ ''";;'')
                               (indexed options)) @ ''\<newline>'' @
       ''            *) echo "Invalid selection" >&2; exit 1;;\<newline>'' @
       ''        esac\<newline>'' @
       ''    ''
      in script)\<close>

definition showTerminalDropdown ::
  "string \<Rightarrow> string list \<Rightarrow> string option \<Rightarrow> world \<Rightarrow> (js_error + string) \<times> world" where
  \<open>showTerminalDropdown prompt options defaultValue w =
     (case execAsync (BinBash (terminalDropdownCommand prompt options defaultValue)) w of
           (Inr stdout, w') \<Rightarrow> (Inr (last (splitChar newline (trim stdout))), w')
         | (Inl e, w') \<Rightarrow> (Inl (Error ''Failed to read selection from terminal''), w'))\<close>

definition kdialogOrTerminalDropdown ::
  "string \<Rightarrow> string list \<Rightarrow> string option \<Rightarrow> string option \<Rightarrow> world \<Rightarrow> (js_error + string) \<times> world" where
  "kdialogOrTerminalDropdown prompt options defaultValue title w =
     (case execAsync (DefaultShell ''which kdialog'') w of
        (Inr _, w1) \<Rightarrow>
          (case showKdialogDropdown prompt options defaultValue title w1 of
             (Inr r, w2) \<Rightarrow> (Inr r, w2)
           | (Inl _, w2) \<Rightarrow> showTerminalDropdown prompt options defaultValue w2)
      | (Inl _, w1) \<Rightarrow> showTerminalDropdown prompt options defaultValue w1)"

definition showLinuxDropdown ::
  "string \<Rightarrow> string list \<Rightarrow> string option \<Rightarrow> string option \<Rightarrow> world \<Rightarrow> (js_error + string) \<times> world" where
  "showLinuxDropdown prompt options defaultValue title w =
     (case execAsync (DefaultShell ''which zenity'') w of
        (Inr _, w1) \<Rightarrow>
          (case showZenityDropdown prompt options defaultValue title w1 of
             (Inr r, w2) \<Rightarrow> (Inr r, w2)
           | (Inl _, w2) \<Rightarrow> kdialogOrTerminalDropdown prompt options defaultValue title w2)
      | (Inl _, w1) \<Rightarrow> kdialogOrTerminalDropdown prompt options defaultValue title w1)"

section \<open>The answers object\<close>

text \<open>
  \<^verbatim>\<open>const answers: Record<string, string> = {}\<close> is a plain object: its own properties in
  the order of their creation. \<^verbatim>\<open>answers[key] = result\<close> replaces the value of an
  existing property in place and appends a new one otherwise. The one key for which a
  plain object does not do so is \<^verbatim>\<open>__proto__\<close>: it names the prototype accessor that
  every plain object inherits, and assigning a string through it changes nothing.
\<close>

type_synonym js_object = "(string \<times> string) list"

definition setProperty :: "js_object \<Rightarrow> string \<Rightarrow> string \<Rightarrow> js_object" where
  "setProperty obj k v = (if k = ''__proto__'' then obj else AList.update k v obj)"

text \<open>
  \<^verbatim>\<open>Object.entries\<close> lists the properties whose key is an array index (a decimal
  numeral without leading zero, below \<open>2\<^sup>3\<^sup>2 - 1\<close>) first, in increasing order, then
  the others in the order of their creation.
\<close>

definition decValue :: "string \<Rightarrow> nat" where
  "decValue k = foldl (\<lambda>n c. 10 * n + (of_char c - 48)) 0 k"

definition isArrayIndex :: "string \<Rightarrow> bool" where
  "isArrayIndex k =
     (k \<noteq> [] \<and> list_all is_digit k \<and> (k = ''0'' \<or> hd k \<noteq> CHR ''0'') \<and> decValue k < 4294967295)"

definition objectEntries :: "js_object \<Rightarrow> (string \<times> string) list" where
  "objectEntries obj =
     sort_key (\<lambda>(k, v). decValue k) (filter (\<lambda>(k, v). isArrayIndex k) obj)
     @ filter (\<lambda>(k, v). \<not> isArrayIndex k) obj"

definition formattedOutput :: "js_object \<Rightarrow> string" where
  "formattedOutput answers = join [newline] (map (\<lambda>(key, value). key @ '': '' @ value) (objectEntries answers))"

section \<open>Requests and results\<close>

text \<open>
  One question of a chain, and the arguments of the tool: the same fields, plus
  \<^verbatim>\<open>questions\<close>. Every field may be absent at run time.
\<close>

record question =
  prompt :: "string option"
  default_value :: "string option"
  title :: "string option"
  password :: "bool option"
  options :: "string list option"
  type :: "string option"

record args = question +
  questions :: "question list option"

text \<open>The \<^verbatim>\<open>data\<close> of a result: of a single question, of a completed chain, of a chain
  cancelled part-way (\<^verbatim>\<open>answeredQuestions\<close>, \<^verbatim>\<open>partialAnswers\<close>).\<close>

datatype tool_data =
    InputData string
  | AnswersData js_object nat
  | PartialData nat js_object

record tool_result =
  success :: bool
  output' :: "string option"
  error :: "string option"
  data :: "tool_data option"

definition failure :: "string \<Rightarrow> tool_result" where
  "failure msg = \<lparr>success = False, output' = None, error = Some msg, data = None\<rparr>"

text \<open>\<^verbatim>\<open>type || (password ? 'password' : 'text')\<close>.\<close>

definition resolveInputType :: "string option \<Rightarrow> bool \<Rightarrow> string" where
  "resolveInputType ty pw = (if truthy ty then the ty else if pw then ''password'' else ''text'')"

definition noOptions :: "string list option \<Rightarrow> bool" where
  "noOptions opts = (case opts of None \<Rightarrow> True | Some xs \<Rightarrow> xs = [])"

text \<open>
  The \<^verbatim>\<open>switch (platform)\<close> that \<^verbatim>\<open>execute\<close> and
  \<^verbatim>\<open>handleChainedQuestions\<close> both contain; they differ in the titles they pass
  (\<open>dropdownTitle\<close> to a dropdown, \<open>dialogTitle\<close> to a text or password dialog).
  \<open>None\<close> is the \<^verbatim>\<open>default\<close> branch, an unsupported platform.
\<close>

definition platformDialog ::
  "string \<Rightarrow> string \<Rightarrow> string \<Rightarrow> string list option \<Rightarrow> string option \<Rightarrow> string option \<Rightarrow> string option
     \<Rightarrow> world \<Rightarrow> ((js_error + string) \<times> world) option" where
  "platformDialog platform inputType promptText opts defaultValue dropdownTitle dialogTitle w =
     (if platform = ''darwin'' then
        Some (if inputType = ''dropdown'' \<and> opts \<noteq> None
              then showMacOSDropdown promptText (the opts) defaultValue dropdownTitle w
              else showMacOSDialog promptText defaultValue dialogTitle (inputType = ''password'') w)
      else if platform = ''win32'' then
        Some (if inputType = ''dropdown'' \<and> opts \<noteq> None
              then showWindowsDropdown promptText (the opts) defaultValue dropdownTitle w
              else showWindowsDialog promptText defaultValue dialogTitle (inputType = ''password'') w)
      else if platform = ''linux'' then
        Some (if inputType = ''dropdown'' \<and> opts \<noteq> None
              then showLinuxDropdown promptText (the opts) defaultValue dropdownTitle w
              else showLinuxDialog promptText defaultValue dialogTitle (inputType = ''password'') w)
      else None)"

section \<open>The chain orchestrator: \<^verbatim>\<open>handleChainedQuestions\<close>\<close>

text \<open>
  The body of the \<^verbatim>\<open>for\<close> loop up to the value of \<^verbatim>\<open>result\<close>, for the question
  \<open>q\<close> at index \<open>i\<close> of \<open>n\<close>: the destructuring with its defaults, the two validations,
  then the platform switch. It ends in one of three ways: the loop returns a failure
  at once (\<open>Rejected\<close>), the dialog throws (\<open>Thrown\<close>), or the dialog gives the
  answer (\<open>Result\<close>).
\<close>

datatype asked = Rejected tool_result | Thrown js_error | Result string

definition askQuestion :: "string \<Rightarrow> nat \<Rightarrow> nat \<Rightarrow> question \<Rightarrow> world \<Rightarrow> asked \<times> world" where
  "askQuestion platform n i q w =
     (let title' = (case title q of
                      None \<Rightarrow> Some (''Question '' @ showNat (i + 1) @ '' of '' @ showNat n)
                    | Some t \<Rightarrow> Some t);
          type' = (case type q of None \<Rightarrow> Some ''text'' | Some t \<Rightarrow> Some t);
          password' = (case password q of None \<Rightarrow> False | Some b \<Rightarrow> b)
      in if \<not> truthy (prompt q) then
           (Rejected (failure (''Question '' @ showNat (i + 1) @ '' is missing required '' @ [dquote] @ ''prompt'' @ [dquote] @ '' field'')), w)
         else if resolveInputType type' password' = ''dropdown'' \<and> noOptions (options q) then
           (Rejected (failure (''Question '' @ showNat (i + 1) @ '': Dropdown type requires options array'')), w)
         else
           (case platformDialog platform (resolveInputType type' password') (the (prompt q))
                   (options q) (default_value q) title' title' w of
              None \<Rightarrow> (Rejected (failure (''Unsupported platform: '' @ platform)), w)
            | Some (Inr result, w') \<Rightarrow> (Result result, w')
            | Some (Inl e, w') \<Rightarrow> (Thrown e, w')))"

text \<open>
  The loop, as a recursion over the questions still to ask: \<open>n\<close> is
  \<^verbatim>\<open>questions.length\<close>, \<open>i\<close> the loop index, \<open>answers\<close> the object built so far.
  An answer is stored under its derived key; a thrown error whose message contains
  \<^verbatim>\<open>cancelled\<close> ends the loop with the partial answers, any other is thrown on to the
  caller (\<open>Inl\<close>).
\<close>

fun chainLoop ::
  "string \<Rightarrow> nat \<Rightarrow> nat \<Rightarrow> question list \<Rightarrow> js_object \<Rightarrow> world \<Rightarrow> (js_error + tool_result) \<times> world" where
  "chainLoop platform n i [] answers w =
     (Inr \<lparr>success = True, output' = Some (formattedOutput answers), error = None,
           data = Some (AnswersData answers n)\<rparr>, w)"
| "chainLoop platform n i (q # rest) answers w =
     (case askQuestion platform n i q w of
        (Rejected r, w') \<Rightarrow> (Inr r, w')
      | (Result result, w') \<Rightarrow>
          chainLoop platform n (i + 1) rest
            (setProperty answers (generateAnswerKey (the (prompt q)) i) result) w'
      | (Thrown e, w') \<Rightarrow>
          if str_includes (message e) ''cancelled'' then
            (Inr \<lparr>success = False, output' = None,
                  error = Some (''User cancelled at question '' @ showNat (i + 1)),
                  data = Some (PartialData i answers)\<rparr>, w')
          else (Inl e, w'))"

definition handleChainedQuestions ::
  "string \<Rightarrow> question list \<Rightarrow> world \<Rightarrow> (js_error + tool_result) \<times> world" where
  "handleChainedQuestions platform qs w = chainLoop platform (length qs) 0 qs [] w"

section \<open>The tool: \<^verbatim>\<open>execute\<close>\<close>

text \<open>
  \<open>platform\<close> is the value of \<^verbatim>\<open>os.platform()\<close>. The chain is run outside the
  \<^verbatim>\<open>try\<close> block, so what it throws leaves \<^verbatim>\<open>execute\<close>; an error of the
  single-question path is caught and reported as a failure. Log lines are not modelled.
\<close>

definition execute :: "string \<Rightarrow> args \<Rightarrow> world \<Rightarrow> (js_error + tool_result) \<times> world" where
  "execute platform a w =
     (if questions a \<noteq> None \<and> the (questions a) \<noteq> [] then
        handleChainedQuestions platform (the (questions a)) w
      else if \<not> truthy (prompt a) then
        (Inr (failure (''Either '' @ [dquote] @ ''prompt'' @ [dquote] @ '' or '' @ [dquote] @ ''questions'' @ [dquote] @ '' parameter is required'')), w)
      else
        (let inputType = resolveInputType (type a) (password a = Some True)
         in if inputType = ''dropdown'' \<and> noOptions (options a) then
              (Inr (failure ''Dropdown type requires options array''), w)
            else
              (case platformDialog platform inputType (the (prompt a)) (options a) (default_value a)
                      (Some (orDefault (title a) ''Select Option''))
                      (Some (orDefault (title a) ''Input Required'')) w of
                 None \<Rightarrow> (Inr (failure (''Unsupported platform: '' @ platform)), w)
               | Some (Inr result, w') \<Rightarrow>
                   (Inr \<lparr>success = True, output' = Some result, error = None,
                         data = Some (InputData result)\<rparr>, w')
               | Some (Inl e, w') \<Rightarrow>
                   (Inr (failure (''Failed to show input dialog: '' @ message e)), w'))))"

section \<open>Notions used to state the properties\<close>

subsection \<open>What the target syntax reads back\<close>

text \<open>
  The escapers are judged by what the target interpreter reads back from their output.
  These readers follow the quoting rules of the three target syntaxes; \<open>None\<close> means that
  the text is not read as one literal (it ends early, or holds an escape or an expansion
  that is no literal text).

  \<^item> A prompt reaches AppleScript through two layers: the shell reads the
    \<^verbatim>\<open>-e '...'\<close> argument, where the only way to write a single quote is to close
    the quotes, write \<^verbatim>\<open>\'\<close> and open them again; AppleScript then reads the string
    literal, where a backslash escapes a backslash or a double quote and
    \<^verbatim>\<open>\n\<close>, \<^verbatim>\<open>\r\<close>, \<^verbatim>\<open>\t\<close> are control characters.
  \<^item> A PowerShell single-quoted literal is verbatim, a doubled single quote standing for
    one.
  \<^item> Inside POSIX double quotes a backslash escapes \<^verbatim>\<open>$\<close>, the backquote, the double
    quote and the backslash, and is dropped with a newline that follows it; before any
    other character it stays. An unescaped double quote ends the literal; an unescaped
    \<^verbatim>\<open>$\<close> or backquote starts an expansion.
\<close>

definition foldNewlines :: "string \<Rightarrow> string" where
  "foldNewlines s = map (\<lambda>c. if c = newline then CHR '' '' else c) s"

fun decodeShSingleQuoted :: "string \<Rightarrow> string option" where
  "decodeShSingleQuoted [] = Some []"
| "decodeShSingleQuoted (c # cs) =
     (if c = squote then
        (case cs of
           c1 # c2 # c3 # rest \<Rightarrow>
             if c1 = bslash \<and> c2 = squote \<and> c3 = squote
             then map_option ((#) squote) (decodeShSingleQuoted rest) else None
         | _ \<Rightarrow> None)
      else map_option ((#) c) (decodeShSingleQuoted cs))"

fun decodeAppleScriptLiteral :: "string \<Rightarrow> string option" where
  "decodeAppleScriptLiteral [] = Some []"
| "decodeAppleScriptLiteral (c # cs) =
     (if c = bslash then
        (case cs of
           [] \<Rightarrow> None
         | c1 # rest \<Rightarrow>
             if c1 = bslash \<or> c1 = dquote then map_option ((#) c1) (decodeAppleScriptLiteral rest)
             else if c1 = CHR ''n'' then map_option ((#) newline) (decodeAppleScriptLiteral rest)
             else if c1 = CHR ''r'' then map_option ((#) (CHR 0x0D)) (decodeAppleScriptLiteral rest)
             else if c1 = CHR ''t'' then map_option ((#) (CHR 0x09)) (decodeAppleScriptLiteral rest)
             else None)
      else if c = dquote then None
      else map_option ((#) c) (decodeAppleScriptLiteral cs))"

definition decodeAppleScript :: "string \<Rightarrow> string option" where
  "decodeAppleScript s = Option.bind (decodeShSingleQuoted s) decodeAppleScriptLiteral"

fun decodePowerShell :: "string \<Rightarrow> string option" where
  "decodePowerShell [] = Some []"
| "decodePowerShell (c # cs) =
     (if c = squote then
        (case cs of
           c1 # rest \<Rightarrow> if c1 = squote then map_option ((#) squote) (decodePowerShell rest) else None
         | [] \<Rightarrow> None)
      else map_option ((#) c) (decodePowerShell cs))"

fun decodeDoubleQuoted :: "string \<Rightarrow> string option" where
  "decodeDoubleQuoted [] = Some []"
| "decodeDoubleQuoted (c # cs) =
     (if c = bslash then
        (case cs of
           [] \<Rightarrow> None
         | c1 # rest \<Rightarrow>
             if c1 = bslash \<or> c1 = dquote \<or> c1 = CHR ''$'' \<or> c1 = CHR 0x60
             then map_option ((#) c1) (decodeDoubleQuoted rest)
             else if c1 = newline then decodeDoubleQuoted rest
             else map_option (\<lambda>r. bslash # c1 # r) (decodeDoubleQuoted rest))
      else if c = dquote \<or> c = CHR ''$'' \<or> c = CHR 0x60 then None
      else map_option ((#) c) (decodeDoubleQuoted cs))"

text \<open>What \<open>escapeAppleScript\<close> does to one character, and what the shell layer leaves
  of it.\<close>

definition escapeAppleScriptChar :: "char \<Rightarrow> string" where
  "escapeAppleScriptChar c =
     (if c = bslash then [bslash, bslash]
      else if c = dquote then [bslash, dquote]
      else if c = squote then [squote, bslash, squote, squote]
      else if c = newline then '' ''
      else [c])"

definition afterShell :: "string \<Rightarrow> string" where
  "afterShell s = concat (map (\<lambda>c. if c = squote then [squote] else escapeAppleScriptChar c) s)"

subsection \<open>Chains\<close>

text \<open>
  The keys under which a chain stores its answers, for questions asked from index \<open>i\<close> on,
  and the object that storing a list of key-value pairs in order leaves.
\<close>

definition chainKeys :: "nat \<Rightarrow> question list \<Rightarrow> string list" where
  "chainKeys i qs = map (\<lambda>(j, q). generateAnswerKey (the (prompt q)) j) (zip [i..<i + length qs] qs)"

definition storeAll :: "js_object \<Rightarrow> (string \<times> string) list \<Rightarrow> js_object" where
  "storeAll obj kvs = foldl (\<lambda>a (k, v). setProperty a k v) obj kvs"

subsection \<open>Scripted worlds\<close>

text \<open>
  A process runner that answers the \<open>k\<close>-th command with the \<open>k\<close>-th entry of a script,
  whatever the command, and fails once the script is used up; and a question that has
  only a prompt. They give the concrete runs below.
\<close>

definition scripted :: "(js_error + string) list \<Rightarrow> world" where
  "scripted rs =
     \<lparr>runner = (\<lambda>h p. if length h < length rs then rs ! length h
                         else Inl (Error ''no scripted response'')),
      spawned = []\<rparr>"

definition ask :: "string \<Rightarrow> question" where
  "ask p = \<lparr>prompt = Some p, default_value = None, title = None, password = None,
            options = None, type = None\<rparr>"

text \<open>
  The error that the runtime's \<^verbatim>\<open>exec\<close> gives for a command that exits with a status
  other than 0: the message is \<^verbatim>\<open>Command failed: \<close>, the command line and a newline
  (then what the process wrote to its standard error, here nothing), and the status is
  attached. \<open>failingWith status\<close> is the world in which every command fails so.
\<close>

fun commandLine :: "spawn \<Rightarrow> string" where
  "commandLine (DefaultShell c) = c"
| "commandLine (BinBash c) = c"

definition commandFailed :: "string \<Rightarrow> nat \<Rightarrow> js_error" where
  "commandFailed cmd status = \<lparr>message = ''Command failed: '' @ cmd @ [newline], exit_status = Some status\<rparr>"

definition failingWith :: "nat \<Rightarrow> world" where
  "failingWith status = \<lparr>runner = (\<lambda>h p. Inl (commandFailed (commandLine p) status)), spawned = []\<rparr>"

text \<open>The arguments and chains of the concrete runs.\<close>

definition noArgs :: args where
  "noArgs = \<lparr>prompt = None, default_value = None, title = None, password = None,
              options = None, type = None, questions = None\<rparr>"

definition dropdownWithoutOptions :: question where
  "dropdownWithoutOptions = (ask ''Pick a colour'')\<lparr>options := Some [], type := Some ''dropdown''\<rparr>"

definition threeQuestions :: "question list" where
  "threeQuestions = [ask ''What is your name?'', ask ''Enter your email:'', ask ''Enter your age:'']"

definition userCanceled :: js_error where
  "userCanceled = \<lparr>message = ''execution error: User canceled. (-128)'', exit_status = Some 1\<rparr>"

definition protoQuestions :: "question list" where
  "protoQuestions = [ask ''What is your __proto__?'', ask ''Enter your __proto__:'']"

text \<open>
  A run on Linux with zenity installed and kdialog not: the first question is answered
  \<^verbatim>\<open>Ana\<close>; at the second the user cancels, zenity exits with status 1; the kdialog
  probe fails; the \<^verbatim>\<open>read\<close> of the terminal adapter fails.
\<close>

definition codeQuestions :: "question list" where
  "codeQuestions = [ask ''What is your name?'', ask ''Enter code 1:'', ask ''Enter your age:'']"

definition linuxCancelWorld :: world where
  \<open>linuxCancelWorld = scripted
     [Inr ''/usr/bin/zenity'', Inr ''Ana'',
      Inr ''/usr/bin/zenity'',
      Inl (commandFailed ''zenity --entry --text="Enter code 1:" --title="Question 2 of 3"'' 1),
      Inl (commandFailed ''which kdialog'' 1),
      Inl (commandFailed ''read -p "Enter code 1: []: " input && echo "${input:-}"'' 1)]\<close>

section \<open>Properties of the key deriver\<close>

lemma first_pattern_key_nonempty:
  "first_pattern_key ps p = Some k \<Longrightarrow> k \<noteq> []"
  by (induction ps) (auto simp: toLowerCase_def split: option.splits if_splits)

text \<open>
  Claim C3. The three test vectors of the key deriver:
  \<^verbatim>\<open>generateAnswerKey("What is your name?", 0)\<close> is \<^verbatim>\<open>"name"\<close>,
  \<^verbatim>\<open>generateAnswerKey("Enter your email:", 1)\<close> is \<^verbatim>\<open>"email"\<close>, and
  \<^verbatim>\<open>generateAnswerKey("xyz", 7)\<close> is \<^verbatim>\<open>"answer8"\<close>.
\<close>

theorem generateAnswerKey_test_vectors:
  "generateAnswerKey ''What is your name?'' 0 = ''name'' \<and>
   generateAnswerKey ''Enter your email:'' 1 = ''email'' \<and>
   generateAnswerKey ''xyz'' 7 = ''answer8''"
  by code_simp

text \<open>
  Claim C10. The key deriver is total and never produces the empty key: for every prompt
  (the empty one included) and every index, \<open>generateAnswerKey\<close> returns a non-empty
  string. The function is defined by terminating recursion throughout, so it returns on
  every input.
\<close>

theorem generateAnswerKey_nonempty: "generateAnswerKey p i \<noteq> []"
  by (auto simp: generateAnswerKey_def split: option.splits dest: first_pattern_key_nonempty)

section \<open>Properties of the escapers\<close>

lemma replaceAll_Nil: "replaceAll c r [] = []"
  by (simp add: replaceAll_def)

lemma replaceAll_Cons:
  "replaceAll c r (x # xs) = (if x = c then r else [x]) @ replaceAll c r xs"
  by (simp add: replaceAll_def)

lemma replaceAll_append:
  "replaceAll c r (xs @ ys) = replaceAll c r xs @ replaceAll c r ys"
  by (simp add: replaceAll_def)

lemma foldNewlines_replaceAll: "foldNewlines s = replaceAll newline '' '' s"
  by (induction s) (auto simp: foldNewlines_def replaceAll_def)

lemma escapeAppleScript_Nil: "escapeAppleScript [] = []"
  by (simp add: escapeAppleScript_def replaceAll_Nil)

lemma escapeAppleScript_Cons:
  "escapeAppleScript (c # s) = escapeAppleScriptChar c @ escapeAppleScript s"
  by (simp add: escapeAppleScript_def escapeAppleScriptChar_def
        replaceAll_Cons replaceAll_append replaceAll_Nil)

lemma decodeShSingleQuoted_escapeAppleScript:
  "decodeShSingleQuoted (escapeAppleScript s) = Some (afterShell s)"
  by (induction s)
     (auto simp: escapeAppleScript_Nil escapeAppleScript_Cons escapeAppleScriptChar_def afterShell_def)

lemma decodeAppleScriptLiteral_afterShell:
  "decodeAppleScriptLiteral (afterShell s) = Some (foldNewlines s)"
  by (induction s) (auto simp: afterShell_def escapeAppleScriptChar_def foldNewlines_def)

text \<open>
  The AppleScript escaper does what is asked of an escaper: what the shell and then
  AppleScript read back is the text, each newline folded to a space.
\<close>

lemma escapeAppleScript_round_trip:
  "decodeAppleScript (escapeAppleScript s) = Some (foldNewlines s)"
  by (simp add: decodeAppleScript_def decodeShSingleQuoted_escapeAppleScript
        decodeAppleScriptLiteral_afterShell)

text \<open>
  Claim C7 asks the same of the other two escapers, and there the code differs. The text
  \<^verbatim>\<open>a\\b\<close> (two backslashes) leaves the double-quote escaper unchanged and is read back
  by the shell as \<^verbatim>\<open>a\b\<close> (one backslash): the chain of the zenity, kdialog and
  terminal adapters escapes the double quote only, where the chain of the macOS adapter
  escapes the backslash first. A text with a newline leaves the double-quote escaper and
  the PowerShell escaper with its newline, which is read back as a newline, not as a space:
  only the macOS chain folds newlines.
\<close>

theorem escapers_round_trip_fails:
  "decodeDoubleQuoted (escapeDoubleQuoted [CHR ''a'', bslash, bslash, CHR ''b''])
     = Some [CHR ''a'', bslash, CHR ''b'']
   \<and> foldNewlines [CHR ''a'', bslash, bslash, CHR ''b''] = [CHR ''a'', bslash, bslash, CHR ''b'']
   \<and> decodeDoubleQuoted (escapeDoubleQuoted [CHR ''a'', newline, CHR ''b''])
     = Some [CHR ''a'', newline, CHR ''b'']
   \<and> decodePowerShell (escapePowerShell [CHR ''a'', newline, CHR ''b''])
     = Some [CHR ''a'', newline, CHR ''b'']
   \<and> foldNewlines [CHR ''a'', newline, CHR ''b''] = ''a b''"
  by code_simp

section \<open>Properties of the zenity adapter\<close>

text \<open>
  What the adapter does with a failed command is decided by the text of the error
  message alone.
\<close>

lemma showZenityDialog_error:
  "isl (fst (showZenityDialog p d t pw w)) \<Longrightarrow>
   \<exists>e. runner w (spawned w) (last (spawned (snd (showZenityDialog p d t pw w)))) = Inl e
     \<and> fst (showZenityDialog p d t pw w) =
         (if str_includes (message e) ''code 1'' \<or> str_includes (message e) ''code 255''
          then Inl (Error ''User cancelled the input dialog'') else Inl e)"
  by (auto simp: showZenityDialog_def execAsync_def split: sum.splits)

text \<open>
  Claim C9 speaks of the exit status: 1 or 255 a cancellation, any other a failure. The
  adapter never reads the exit status; it looks for the texts \<^verbatim>\<open>code 1\<close> and
  \<^verbatim>\<open>code 255\<close> in the message of the error, and the message of a failed command
  holds its command line, not its status. So:
  \<^item> with the prompt \<^verbatim>\<open>Enter code 1\<close>, a zenity that exits with status 5 is reported
    as a cancellation, the command line holding \<^verbatim>\<open>code 1\<close>;
  \<^item> with the prompt \<^verbatim>\<open>Name\<close>, a zenity that exits with status 1 is thrown on as
    the failure it came as, the message holding neither text.
\<close>

theorem showZenityDialog_exit_status_ignored:
  \<open>fst (showZenityDialog ''Enter code 1'' None None False (failingWith 5))
     = Inl (Error ''User cancelled the input dialog'')
   \<and> spawned (snd (showZenityDialog ''Enter code 1'' None None False (failingWith 5)))
     = [DefaultShell ''zenity --entry --text="Enter code 1" --title="Input Required"'']
   \<and> fst (showZenityDialog ''Name'' None None False (failingWith 1))
     = Inl \<lparr>message = ''Command failed: zenity --entry --text="Name" --title="Input Required"'' @ [newline],
            exit_status = Some 1\<rparr>\<close>
  by code_simp

section \<open>Properties of the Linux dispatcher\<close>

lemma showZenityDialog_spawns:
  "\<exists>c. spawned (snd (showZenityDialog p d t pw w)) = spawned w @ [DefaultShell c]"
  by (auto simp: showZenityDialog_def execAsync_def split: sum.splits)

lemma showKdialogDialog_spawns:
  "\<exists>c. spawned (snd (showKdialogDialog p d t pw w)) = spawned w @ [DefaultShell c]"
  by (auto simp: showKdialogDialog_def execAsync_def split: sum.splits)

lemma showTerminalInput_spawns:
  "\<exists>c. spawned (snd (showTerminalInput p d pw w)) = spawned w @ [BinBash c]"
  by (auto simp: showTerminalInput_def execAsync_def split: sum.splits)

lemma kdialogOrTerminal_spawns:
  "\<exists>rest. spawned (snd (kdialogOrTerminal p d t pw w))
            = spawned w @ DefaultShell ''which kdialog'' # rest"
proof (cases "runner w (spawned w) (DefaultShell ''which kdialog'')")
  case (Inl e)
  then show ?thesis
    using showTerminalInput_spawns[of p d pw "w\<lparr>spawned := spawned w @ [DefaultShell ''which kdialog'']\<rparr>"]
    by (auto simp: kdialogOrTerminal_def execAsync_def)
next
  case (Inr out)
  let ?w2 = "w\<lparr>spawned := spawned w @ [DefaultShell ''which kdialog'']\<rparr>"
  obtain c where c: "spawned (snd (showKdialogDialog p d t pw ?w2)) = spawned ?w2 @ [DefaultShell c]"
    using showKdialogDialog_spawns by blast
  obtain c' where c': "spawned (snd (showTerminalInput p d pw (snd (showKdialogDialog p d t pw ?w2))))
       = spawned (snd (showKdialogDialog p d t pw ?w2)) @ [BinBash c']"
    using showTerminalInput_spawns by blast
  show ?thesis
    using Inr c c'
    by (cases "showKdialogDialog p d t pw ?w2")
       (auto simp: kdialogOrTerminal_def execAsync_def split: sum.splits)
qed

text \<open>
  Claim C8. On Linux the mechanisms are tried in the order zenity, kdialog, terminal:
  \<^item> the first process run is the zenity probe;
  \<^item> when the zenity probe fails, the next process is the kdialog probe;
  \<^item> when the zenity probe succeeds and the zenity adapter fails, the process after the
    zenity command is the kdialog probe;
  \<^item> when both probes fail, the outcome is that of the terminal adapter, and the terminal
    command is the only process run besides the two probes;
  \<^item> when the zenity probe fails, the kdialog probe succeeds and the kdialog adapter fails,
    the kdialog command is followed by the terminal command, and nothing else is run.
\<close>

theorem showLinuxDialog_fallback_order:
  "(\<exists>rest. spawned (snd (showLinuxDialog p d t pw w))
              = spawned w @ DefaultShell ''which zenity'' # rest)
   \<and> (isl (runner w (spawned w) (DefaultShell ''which zenity'')) \<longrightarrow>
        (\<exists>rest. spawned (snd (showLinuxDialog p d t pw w))
                  = spawned w @ DefaultShell ''which zenity'' # DefaultShell ''which kdialog'' # rest))
   \<and> (\<not> isl (runner w (spawned w) (DefaultShell ''which zenity''))
        \<and> isl (fst (showZenityDialog p d t pw (snd (execAsync (DefaultShell ''which zenity'') w)))) \<longrightarrow>
        (\<exists>c rest. spawned (snd (showLinuxDialog p d t pw w))
                    = spawned w @ DefaultShell ''which zenity'' # DefaultShell c
                        # DefaultShell ''which kdialog'' # rest))
   \<and> (isl (runner w (spawned w) (DefaultShell ''which zenity''))
        \<and> isl (runner w (spawned w @ [DefaultShell ''which zenity'']) (DefaultShell ''which kdialog'')) \<longrightarrow>
        showLinuxDialog p d t pw w
          = showTerminalInput p d pw
              (w\<lparr>spawned := spawned w @ [DefaultShell ''which zenity'', DefaultShell ''which kdialog'']\<rparr>)
        \<and> (\<exists>c. spawned (snd (showLinuxDialog p d t pw w))
                  = spawned w @ [DefaultShell ''which zenity'', DefaultShell ''which kdialog'', BinBash c]))
   \<and> (isl (runner w (spawned w) (DefaultShell ''which zenity''))
        \<and> \<not> isl (runner w (spawned w @ [DefaultShell ''which zenity'']) (DefaultShell ''which kdialog''))
        \<and> isl (fst (showKdialogDialog p d t pw
                       (w\<lparr>spawned := spawned w @ [DefaultShell ''which zenity'', DefaultShell ''which kdialog'']\<rparr>))) \<longrightarrow>
        (\<exists>c c'. spawned (snd (showLinuxDialog p d t pw w))
                  = spawned w @ [DefaultShell ''which zenity'', DefaultShell ''which kdialog'',
                                 DefaultShell c, BinBash c']))"
proof -
  let ?zen = "DefaultShell ''which zenity''"
  let ?kd = "DefaultShell ''which kdialog''"
  let ?w1 = "w\<lparr>spawned := spawned w @ [?zen]\<rparr>"
  have ex: "execAsync ?zen w = (runner w (spawned w) ?zen, ?w1)"
    by (simp add: execAsync_def)
  have w1: "snd (execAsync ?zen w) = ?w1"
    by (simp add: ex)
  obtain rk where rk: "spawned (snd (kdialogOrTerminal p d t pw ?w1)) = spawned ?w1 @ ?kd # rk"
    using kdialogOrTerminal_spawns by blast
  obtain c where c: "spawned (snd (showZenityDialog p d t pw ?w1)) = spawned ?w1 @ [DefaultShell c]"
    using showZenityDialog_spawns by blast
  obtain rz where rz: "spawned (snd (kdialogOrTerminal p d t pw (snd (showZenityDialog p d t pw ?w1))))
      = spawned (snd (showZenityDialog p d t pw ?w1)) @ ?kd # rz"
    using kdialogOrTerminal_spawns by blast
  have probe_fails: "\<exists>rest. spawned (snd (showLinuxDialog p d t pw w)) = spawned w @ ?zen # ?kd # rest"
    if "isl (runner w (spawned w) ?zen)"
    using that rk by (auto simp: showLinuxDialog_def ex isl_def)
  have zenity_fails: "\<exists>c rest. spawned (snd (showLinuxDialog p d t pw w))
                    = spawned w @ ?zen # DefaultShell c # ?kd # rest"
    if "\<not> isl (runner w (spawned w) ?zen)" "isl (fst (showZenityDialog p d t pw ?w1))"
  proof -
    from that(1) obtain out where out: "runner w (spawned w) ?zen = Inr out"
      by (cases "runner w (spawned w) ?zen") auto
    from that(2) obtain e w2 where z: "showZenityDialog p d t pw ?w1 = (Inl e, w2)"
      by (cases "showZenityDialog p d t pw ?w1") (auto simp: isl_def)
    show ?thesis using out z c rz by (simp add: showLinuxDialog_def ex)
  qed
  have first: "\<exists>rest. spawned (snd (showLinuxDialog p d t pw w)) = spawned w @ ?zen # rest"
  proof (cases "isl (runner w (spawned w) ?zen)")
    case True
    from probe_fails[OF this] show ?thesis by blast
  next
    case False
    then obtain out where out: "runner w (spawned w) ?zen = Inr out"
      by (cases "runner w (spawned w) ?zen") auto
    show ?thesis
    proof (cases "isl (fst (showZenityDialog p d t pw ?w1))")
      case True
      from zenity_fails[OF False this] show ?thesis by auto
    next
      case False
      then obtain r w2 where z: "showZenityDialog p d t pw ?w1 = (Inr r, w2)"
        by (cases "showZenityDialog p d t pw ?w1"; cases "fst (showZenityDialog p d t pw ?w1)") auto
      show ?thesis using out z c by (simp add: showLinuxDialog_def ex)
    qed
  qed
  have terminal: "showLinuxDialog p d t pw w
          = showTerminalInput p d pw (w\<lparr>spawned := spawned w @ [?zen, ?kd]\<rparr>)
        \<and> (\<exists>c. spawned (snd (showLinuxDialog p d t pw w)) = spawned w @ [?zen, ?kd, BinBash c])"
    if "isl (runner w (spawned w) ?zen)" "isl (runner w (spawned w @ [?zen]) ?kd)"
  proof -
    let ?w2 = "w\<lparr>spawned := spawned w @ [?zen, ?kd]\<rparr>"
    have eq: "showLinuxDialog p d t pw w = showTerminalInput p d pw ?w2"
      using that by (auto simp: showLinuxDialog_def kdialogOrTerminal_def execAsync_def isl_def)
    obtain c' where "spawned (snd (showTerminalInput p d pw ?w2)) = spawned ?w2 @ [BinBash c']"
      using showTerminalInput_spawns by blast
    with eq show ?thesis by simp
  qed
  have kdialog_fails: "\<exists>c c'. spawned (snd (showLinuxDialog p d t pw w))
                  = spawned w @ [?zen, ?kd, DefaultShell c, BinBash c']"
    if "isl (runner w (spawned w) ?zen)" "\<not> isl (runner w (spawned w @ [?zen]) ?kd)"
       "isl (fst (showKdialogDialog p d t pw (w\<lparr>spawned := spawned w @ [?zen, ?kd]\<rparr>)))"
  proof -
    let ?w2 = "w\<lparr>spawned := spawned w @ [?zen, ?kd]\<rparr>"
    from that(2) obtain out where out: "runner w (spawned w @ [?zen]) ?kd = Inr out"
      by (cases "runner w (spawned w @ [?zen]) ?kd") auto
    from that(3) obtain e w3 where k: "showKdialogDialog p d t pw ?w2 = (Inl e, w3)"
      by (cases "showKdialogDialog p d t pw ?w2") (auto simp: isl_def)
    obtain ck where ck: "spawned (snd (showKdialogDialog p d t pw ?w2)) = spawned ?w2 @ [DefaultShell ck]"
      using showKdialogDialog_spawns by blast
    obtain ct where ct: "spawned (snd (showTerminalInput p d pw w3)) = spawned w3 @ [BinBash ct]"
      using showTerminalInput_spawns by blast
    have "showLinuxDialog p d t pw w = showTerminalInput p d pw w3"
      using that(1) out k by (auto simp: showLinuxDialog_def kdialogOrTerminal_def execAsync_def isl_def)
    with ck ct k show ?thesis by simp
  qed
  from first probe_fails zenity_fails terminal kdialog_fails show ?thesis
    unfolding w1 by blast
qed

text \<open>
  Three runs: neither zenity nor kdialog is installed and the terminal answers
  \<^verbatim>\<open>Ana\<close>; zenity is installed and its dialog fails; only kdialog is installed and
  its dialog fails.
\<close>

theorem showLinuxDialog_fallback_order_witness:
  \<open>(isl (runner (scripted [Inl (commandFailed ''which zenity'' 1), Inl (commandFailed ''which kdialog'' 1), Inr ''Ana''])
           (spawned (scripted [Inl (commandFailed ''which zenity'' 1), Inl (commandFailed ''which kdialog'' 1), Inr ''Ana'']))
           (DefaultShell ''which zenity''))
    \<and> isl (runner (scripted [Inl (commandFailed ''which zenity'' 1), Inl (commandFailed ''which kdialog'' 1), Inr ''Ana''])
           (spawned (scripted [Inl (commandFailed ''which zenity'' 1), Inl (commandFailed ''which kdialog'' 1), Inr ''Ana''])
              @ [DefaultShell ''which zenity''])
           (DefaultShell ''which kdialog'')))
   \<and> (showLinuxDialog ''What is your name?'' None None False
         (scripted [Inl (commandFailed ''which zenity'' 1), Inl (commandFailed ''which kdialog'' 1), Inr ''Ana''])
       = showTerminalInput ''What is your name?'' None False
           ((scripted [Inl (commandFailed ''which zenity'' 1), Inl (commandFailed ''which kdialog'' 1), Inr ''Ana''])
              \<lparr>spawned := spawned (scripted [Inl (commandFailed ''which zenity'' 1), Inl (commandFailed ''which kdialog'' 1), Inr ''Ana''])
                   @ [DefaultShell ''which zenity'', DefaultShell ''which kdialog'']\<rparr>)
      \<and> (\<exists>c. spawned (snd (showLinuxDialog ''What is your name?'' None None False
                   (scripted [Inl (commandFailed ''which zenity'' 1), Inl (commandFailed ''which kdialog'' 1), Inr ''Ana''])))
             = spawned (scripted [Inl (commandFailed ''which zenity'' 1), Inl (commandFailed ''which kdialog'' 1), Inr ''Ana''])
                 @ [DefaultShell ''which zenity'', DefaultShell ''which kdialog'', BinBash c]))
   \<and> fst (showLinuxDialog ''What is your name?'' None None False
         (scripted [Inl (commandFailed ''which zenity'' 1), Inl (commandFailed ''which kdialog'' 1), Inr ''Ana'']))
       = Inr ''Ana''
   \<and> (\<not> isl (runner (scripted [Inr ''/usr/bin/zenity'', Inl (commandFailed ''zenity'' 5)])
           (spawned (scripted [Inr ''/usr/bin/zenity'', Inl (commandFailed ''zenity'' 5)]))
           (DefaultShell ''which zenity''))
    \<and> isl (fst (showZenityDialog ''What is your name?'' None None False
                   (snd (execAsync (DefaultShell ''which zenity'')
                           (scripted [Inr ''/usr/bin/zenity'', Inl (commandFailed ''zenity'' 5)]))))))
   \<and> (\<exists>c rest. spawned (snd (showLinuxDialog ''What is your name?'' None None False
                   (scripted [Inr ''/usr/bin/zenity'', Inl (commandFailed ''zenity'' 5)])))
             = spawned (scripted [Inr ''/usr/bin/zenity'', Inl (commandFailed ''zenity'' 5)])
                 @ DefaultShell ''which zenity'' # DefaultShell c # DefaultShell ''which kdialog'' # rest)
   \<and> (isl (runner (scripted [Inl (commandFailed ''which zenity'' 1), Inr ''/usr/bin/kdialog'', Inl (commandFailed ''kdialog'' 2)])
           (spawned (scripted [Inl (commandFailed ''which zenity'' 1), Inr ''/usr/bin/kdialog'', Inl (commandFailed ''kdialog'' 2)]))
           (DefaultShell ''which zenity''))
    \<and> \<not> isl (runner (scripted [Inl (commandFailed ''which zenity'' 1), Inr ''/usr/bin/kdialog'', Inl (commandFailed ''kdialog'' 2)])
           (spawned (scripted [Inl (commandFailed ''which zenity'' 1), Inr ''/usr/bin/kdialog'', Inl (commandFailed ''kdialog'' 2)])
              @ [DefaultShell ''which zenity''])
           (DefaultShell ''which kdialog''))
    \<and> isl (fst (showKdialogDialog ''What is your name?'' None None False
           ((scripted [Inl (commandFailed ''which zenity'' 1), Inr ''/usr/bin/kdialog'', Inl (commandFailed ''kdialog'' 2)])
              \<lparr>spawned := spawned (scripted [Inl (commandFailed ''which zenity'' 1), Inr ''/usr/bin/kdialog'', Inl (commandFailed ''kdialog'' 2)])
                   @ [DefaultShell ''which zenity'', DefaultShell ''which kdialog'']\<rparr>))))
   \<and> (\<exists>c c'. spawned (snd (showLinuxDialog ''What is your name?'' None None False
                   (scripted [Inl (commandFailed ''which zenity'' 1), Inr ''/usr/bin/kdialog'', Inl (commandFailed ''kdialog'' 2)])))
             = spawned (scripted [Inl (commandFailed ''which zenity'' 1), Inr ''/usr/bin/kdialog'', Inl (commandFailed ''kdialog'' 2)])
                 @ [DefaultShell ''which zenity'', DefaultShell ''which kdialog'', DefaultShell c, BinBash c'])\<close>
proof -
  let ?wc = "scripted [Inl (commandFailed ''which zenity'' 1), Inr ''/usr/bin/kdialog'', Inl (commandFailed ''kdialog'' 2)]"
  have c1: "isl (runner ?wc (spawned ?wc) (DefaultShell ''which zenity''))"
    by code_simp
  have c2: "\<not> isl (runner ?wc (spawned ?wc @ [DefaultShell ''which zenity'']) (DefaultShell ''which kdialog''))"
    by code_simp
  have c3: "isl (fst (showKdialogDialog ''What is your name?'' None None False
           (?wc\<lparr>spawned := spawned ?wc @ [DefaultShell ''which zenity'', DefaultShell ''which kdialog'']\<rparr>)))"
    by code_simp
  note tc = showLinuxDialog_fallback_order[of "''What is your name?''" None None False ?wc]
  from tc c1 c2 c3 have C: "\<exists>c c'. spawned (snd (showLinuxDialog ''What is your name?'' None None False ?wc))
             = spawned ?wc @ [DefaultShell ''which zenity'', DefaultShell ''which kdialog'', DefaultShell c, BinBash c']"
    by blast
  let ?wa = "scripted [Inl (commandFailed ''which zenity'' 1), Inl (commandFailed ''which kdialog'' 1), Inr ''Ana'']"
  let ?wb = "scripted [Inr ''/usr/bin/zenity'', Inl (commandFailed ''zenity'' 5)]"
  have a1: "isl (runner ?wa (spawned ?wa) (DefaultShell ''which zenity''))"
    by code_simp
  have a2: "isl (runner ?wa (spawned ?wa @ [DefaultShell ''which zenity'']) (DefaultShell ''which kdialog''))"
    by code_simp
  have a3: "fst (showLinuxDialog ''What is your name?'' None None False ?wa) = Inr ''Ana''"
    by code_simp
  have b1: "\<not> isl (runner ?wb (spawned ?wb) (DefaultShell ''which zenity''))"
    by code_simp
  have b2: "isl (fst (showZenityDialog ''What is your name?'' None None False
                   (snd (execAsync (DefaultShell ''which zenity'') ?wb))))"
    by code_simp
  note ta = showLinuxDialog_fallback_order[of "''What is your name?''" None None False ?wa]
  note tb = showLinuxDialog_fallback_order[of "''What is your name?''" None None False ?wb]
  from ta a1 a2 have A: "showLinuxDialog ''What is your name?'' None None False ?wa
       = showTerminalInput ''What is your name?'' None False
           (?wa\<lparr>spawned := spawned ?wa @ [DefaultShell ''which zenity'', DefaultShell ''which kdialog'']\<rparr>)
      \<and> (\<exists>c. spawned (snd (showLinuxDialog ''What is your name?'' None None False ?wa))
             = spawned ?wa @ [DefaultShell ''which zenity'', DefaultShell ''which kdialog'', BinBash c])"
    by blast
  from tb b1 b2 have B: "\<exists>c rest. spawned (snd (showLinuxDialog ''What is your name?'' None None False ?wb))
             = spawned ?wb @ DefaultShell ''which zenity'' # DefaultShell c # DefaultShell ''which kdialog'' # rest"
    by blast
  from A B C a1 a2 a3 b1 b2 c1 c2 c3 show ?thesis by blast
qed

text \<open>
  The two \<^verbatim>\<open>catch\<close> clauses being bare, the only error that leaves the Linux
  dispatcher is the one of the terminal adapter: the cancellation errors that the zenity
  and kdialog adapters throw lead to the next mechanism and never reach the caller.
\<close>

lemma showTerminalInput_error:
  "fst (showTerminalInput p d pw w) = Inl e \<Longrightarrow> e = Error ''Failed to read input from terminal''"
  by (auto simp: showTerminalInput_def execAsync_def split: sum.splits)

lemma kdialogOrTerminal_error:
  "fst (kdialogOrTerminal p d t pw w) = Inl e \<Longrightarrow> e = Error ''Failed to read input from terminal''"
  unfolding kdialogOrTerminal_def
  by (auto split: prod.splits sum.splits dest: showTerminalInput_error)

lemma showLinuxDialog_error:
  "fst (showLinuxDialog p d t pw w) = Inl e \<Longrightarrow> e = Error ''Failed to read input from terminal''"
  unfolding showLinuxDialog_def
  by (auto split: prod.splits sum.splits dest: kdialogOrTerminal_error)

lemma showTerminalDropdown_error:
  "fst (showTerminalDropdown p opts d w) = Inl e \<Longrightarrow> e = Error ''Failed to read selection from terminal''"
  by (auto simp: showTerminalDropdown_def execAsync_def split: sum.splits)

lemma kdialogOrTerminalDropdown_error:
  "fst (kdialogOrTerminalDropdown p opts d t w) = Inl e \<Longrightarrow> e = Error ''Failed to read selection from terminal''"
  unfolding kdialogOrTerminalDropdown_def
  by (auto split: prod.splits sum.splits dest: showTerminalDropdown_error)

lemma showLinuxDropdown_error:
  "fst (showLinuxDropdown p opts d t w) = Inl e \<Longrightarrow> e = Error ''Failed to read selection from terminal''"
  unfolding showLinuxDropdown_def
  by (auto split: prod.splits sum.splits dest: kdialogOrTerminalDropdown_error)

lemma terminal_errors_not_cancelled:
  "\<not> str_includes (message (Error ''Failed to read input from terminal'')) ''cancelled''"
  "\<not> str_includes (message (Error ''Failed to read selection from terminal'')) ''cancelled''"
  by code_simp+

lemma showLinuxDialog_throws:
  "showLinuxDialog p d t pw w = (Inl e, w') \<Longrightarrow> e = Error ''Failed to read input from terminal''"
  using showLinuxDialog_error[of p d t pw w e] by simp

lemma showLinuxDropdown_throws:
  "showLinuxDropdown p opts d t w = (Inl e, w') \<Longrightarrow> e = Error ''Failed to read selection from terminal''"
  using showLinuxDropdown_error[of p opts d t w e] by simp

section \<open>Properties of the chain orchestrator and of the tool\<close>

subsection \<open>The answers object\<close>

lemma setProperty_map_of:
  "k \<noteq> ''__proto__'' \<Longrightarrow> map_of (setProperty obj k v) = (map_of obj)(k \<mapsto> v)"
  by (simp add: setProperty_def update_conv')

lemma setProperty_distinct:
  "distinct (map fst obj) \<Longrightarrow> distinct (map fst (setProperty obj k v))"
  by (simp add: setProperty_def distinct_update)

lemma storeAll_distinct:
  "distinct (map fst obj) \<Longrightarrow> distinct (map fst (storeAll obj kvs))"
  unfolding storeAll_def
  by (induction kvs arbitrary: obj) (auto simp: setProperty_distinct)

text \<open>
  Storing is last-write-wins for every key but \<^verbatim>\<open>__proto__\<close>: after a list of
  stores, the value under a key is the one stored last under it, and the object has each
  key once.
\<close>

lemma storeAll_last_write_wins:
  "k \<noteq> ''__proto__'' \<Longrightarrow>
   map_of (storeAll obj kvs) k = (case map_of (rev kvs) k of Some v \<Rightarrow> Some v | None \<Rightarrow> map_of obj k)"
  unfolding storeAll_def
proof (induction kvs arbitrary: obj)
  case Nil
  then show ?case by simp
next
  case (Cons kv kvs)
  obtain k' v' where kv: "kv = (k', v')" by (cases kv)
  show ?case
  proof (cases "k' = ''__proto__''")
    case True
    with Cons kv show ?thesis
      by (auto simp: setProperty_def map_of_append map_add_def split: option.splits)
  next
    case False
    with Cons kv show ?thesis
      by (auto simp: setProperty_map_of map_of_append map_add_def split: option.splits)
  qed
qed

lemma storeAll_proto_dropped:
  "map_of (storeAll obj kvs) ''__proto__'' = map_of obj ''__proto__''"
  unfolding storeAll_def
  by (induction kvs arbitrary: obj) (auto simp: setProperty_def update_conv')

subsection \<open>The loop\<close>

lemma askQuestion_Rejected_failed:
  "askQuestion pf n i q w = (Rejected r, w') \<Longrightarrow> \<not> success r \<and> data r = None \<and> w' = w"
  by (auto simp: askQuestion_def Let_def failure_def split: if_splits option.splits prod.splits sum.splits)

lemma askQuestion_no_prompt:
  "\<not> truthy (prompt q) \<Longrightarrow>
   askQuestion pf n i q w =
     (Rejected (failure (''Question '' @ showNat (i + 1) @ '' is missing required '' @ [dquote] @ ''prompt'' @ [dquote] @ '' field'')), w)"
  by (simp add: askQuestion_def Let_def)

lemma askQuestion_dropdown_no_options:
  "type q = Some ''dropdown'' \<Longrightarrow> noOptions (options q) \<Longrightarrow>
   \<exists>msg. askQuestion pf n i q w = (Rejected (failure msg), w)"
  by (auto simp: askQuestion_def Let_def resolveInputType_def truthy_def)

lemma chainKeys_Cons:
  "chainKeys i (q # qs) = generateAnswerKey (the (prompt q)) i # chainKeys (Suc i) qs"
  by (simp add: chainKeys_def upt_rec)

text \<open>
  A chain that completes has stored one answer for each of its questions, in order, each
  under the key derived from its prompt and index.
\<close>

lemma chainLoop_answers_storeAll:
  "fst (chainLoop pf n i xs answers w) = Inr r \<Longrightarrow> data r = Some (AnswersData ans m) \<Longrightarrow>
   \<exists>rs. length rs = length xs \<and> ans = storeAll answers (zip (chainKeys i xs) rs)"
proof (induction xs arbitrary: i answers w)
  case Nil
  then show ?case by (auto simp: storeAll_def)
next
  case (Cons q xs)
  obtain a w' where aq: "askQuestion pf n i q w = (a, w')" by (cases "askQuestion pf n i q w")
  show ?case
  proof (cases a)
    case (Rejected r')
    with aq Cons.prems askQuestion_Rejected_failed[of pf n i q w r' w'] show ?thesis by auto
  next
    case (Thrown e)
    with aq Cons.prems show ?thesis by (auto split: if_splits)
  next
    case (Result s)
    with aq Cons.prems
    have "fst (chainLoop pf n (Suc i) xs (setProperty answers (generateAnswerKey (the (prompt q)) i) s) w') = Inr r"
      by simp
    from Cons.IH[OF this Cons.prems(2)] obtain rs where
      rs: "length rs = length xs"
        "ans = storeAll (setProperty answers (generateAnswerKey (the (prompt q)) i) s) (zip (chainKeys (Suc i) xs) rs)"
      by blast
    then have "length (s # rs) = length (q # xs) \<and> ans = storeAll answers (zip (chainKeys i (q # xs)) (s # rs))"
      by (simp add: chainKeys_Cons storeAll_def)
    then show ?thesis by blast
  qed
qed

text \<open>
  When the first questions of a chain are answered throughout, the chain goes on with the
  rest from the object and the world they leave.
\<close>

lemma chainLoop_append:
  "fst (chainLoop pf n i xs answers w) = Inr r \<Longrightarrow> data r = Some (AnswersData ans m) \<Longrightarrow>
   chainLoop pf n i (xs @ ys) answers w =
     chainLoop pf n (i + length xs) ys ans (snd (chainLoop pf n i xs answers w))"
proof (induction xs arbitrary: i answers w)
  case Nil
  then show ?case by auto
next
  case (Cons q xs)
  obtain a w' where aq: "askQuestion pf n i q w = (a, w')" by (cases "askQuestion pf n i q w")
  show ?case
  proof (cases a)
    case (Rejected r')
    with aq Cons.prems askQuestion_Rejected_failed[of pf n i q w r' w'] show ?thesis by auto
  next
    case (Thrown e)
    with aq Cons.prems show ?thesis by (auto split: if_splits)
  next
    case (Result s)
    with aq Cons.prems Cons.IH[of "i + 1" "setProperty answers (generateAnswerKey (the (prompt q)) i) s" w']
    show ?thesis by auto
  qed
qed

lemma chain_reaches:
  assumes "i < length qs"
    and "fst (chainLoop pf (length qs) 0 (take i qs) [] w) = Inr r0"
    and "data r0 = Some (AnswersData ans m)"
  shows "handleChainedQuestions pf qs w =
           chainLoop pf (length qs) i (qs ! i # drop (Suc i) qs) ans
             (snd (chainLoop pf (length qs) 0 (take i qs) [] w))"
proof -
  have "qs = take i qs @ (qs ! i # drop (Suc i) qs)"
    using assms(1) by (simp add: id_take_nth_drop)
  then have "handleChainedQuestions pf qs w =
      chainLoop pf (length qs) 0 (take i qs @ (qs ! i # drop (Suc i) qs)) [] w"
    unfolding handleChainedQuestions_def by simp
  also have "\<dots> = chainLoop pf (length qs) (0 + length (take i qs)) (qs ! i # drop (Suc i) qs) ans
             (snd (chainLoop pf (length qs) 0 (take i qs) [] w))"
    using assms(2,3) by (rule chainLoop_append)
  finally show ?thesis using assms(1) by simp
qed

lemma chain_cancel_at:
  assumes "i < length qs"
    and "fst (chainLoop pf (length qs) 0 (take i qs) [] w) = Inr r0"
    and "data r0 = Some (AnswersData ans m)"
    and "fst (askQuestion pf (length qs) i (qs ! i) (snd (chainLoop pf (length qs) 0 (take i qs) [] w))) = Thrown e"
    and "str_includes (message e) ''cancelled''"
  shows "handleChainedQuestions pf qs w =
           (Inr \<lparr>success = False, output' = None,
                 error = Some (''User cancelled at question '' @ showNat (i + 1)),
                 data = Some (PartialData i ans)\<rparr>,
            snd (askQuestion pf (length qs) i (qs ! i) (snd (chainLoop pf (length qs) 0 (take i qs) [] w))))"
proof -
  let ?wi = "snd (chainLoop pf (length qs) 0 (take i qs) [] w)"
  obtain w' where aq: "askQuestion pf (length qs) i (qs ! i) ?wi = (Thrown e, w')"
    using assms(4) by (cases "askQuestion pf (length qs) i (qs ! i) ?wi") auto
  have "handleChainedQuestions pf qs w = chainLoop pf (length qs) i (qs ! i # drop (Suc i) qs) ans ?wi"
    using assms(1,2,3) by (rule chain_reaches)
  also have "\<dots> = (Inr \<lparr>success = False, output' = None,
                 error = Some (''User cancelled at question '' @ showNat (i + 1)),
                 data = Some (PartialData i ans)\<rparr>, w')"
    using aq assms(5) by simp
  finally show ?thesis using aq by simp
qed

subsection \<open>Cancellation part-way\<close>

text \<open>
  Where the dialog of question \<open>i\<close> throws a cancellation (an error whose message contains
  \<^verbatim>\<open>cancelled\<close>) after the questions before \<open>i\<close> were all answered, the chain returns
  at once \<^verbatim>\<open>success: false\<close> with \<^verbatim>\<open>answeredQuestions\<close> equal to \<open>i\<close> and the
  answers stored so far: \<open>chain_cancel_at\<close>. On Linux no dialog ever throws one.
\<close>

lemma askQuestion_linux_thrown:
  assumes "askQuestion ''linux'' n i q w = (Thrown e, w')"
  shows "\<not> str_includes (message e) ''cancelled''"
proof -
  from assms have "e = Error ''Failed to read input from terminal''
      \<or> e = Error ''Failed to read selection from terminal''"
    by (auto simp: askQuestion_def platformDialog_def Let_def
          split: if_splits prod.splits sum.splits
          dest: showLinuxDialog_throws showLinuxDropdown_throws)
  then show ?thesis using terminal_errors_not_cancelled by auto
qed

lemma chainLoop_linux_no_partial:
  "fst (chainLoop ''linux'' n i qs answers w) = Inr r \<Longrightarrow> data r \<noteq> Some (PartialData j a)"
proof (induction qs arbitrary: i answers w)
  case Nil
  then show ?case by auto
next
  case (Cons q qs)
  obtain x w' where aq: "askQuestion ''linux'' n i q w = (x, w')"
    by (cases "askQuestion ''linux'' n i q w")
  show ?case
  proof (cases x)
    case (Rejected r')
    with aq Cons.prems askQuestion_Rejected_failed[of "''linux''" n i q w r' w'] show ?thesis by auto
  next
    case (Thrown e)
    with aq askQuestion_linux_thrown[of n i q w e w'] Cons.prems show ?thesis by auto
  next
    case (Result s)
    with aq Cons.prems Cons.IH show ?thesis by auto
  qed
qed

text \<open>
  Claim C1 says that a cancellation at question \<open>i\<close> ends the chain at once with
  \<^verbatim>\<open>answeredQuestions\<close> equal to \<open>i\<close> and the answers given before it. On macOS the
  code does so: three questions, the first answered \<^verbatim>\<open>Ana\<close>, the second cancelled,
  return index 1 and the one answer, and no third process is run. On Linux it does not.
  With zenity installed, the first question answered and the second cancelled (zenity
  exits with status 1, and its adapter does throw the cancellation error, the message
  holding \<^verbatim>\<open>code 1\<close>), the bare \<^verbatim>\<open>catch\<close> of the dispatcher takes the cancellation
  for a failure of zenity: the kdialog probe and the terminal adapter are run for the
  same question, and what leaves the chain is the error of the terminal adapter, thrown,
  with no \<^verbatim>\<open>answeredQuestions\<close> and no \<^verbatim>\<open>partialAnswers\<close>. By
  \<open>chainLoop_linux_no_partial\<close> no run on Linux ever returns a partial result.
\<close>

theorem chain_cancel_lost_on_linux:
  \<open>fst (handleChainedQuestions ''darwin'' threeQuestions (scripted [Inr ''Ana'', Inl userCanceled]))
     = Inr \<lparr>success = False, output' = None, error = Some ''User cancelled at question 2'',
            data = Some (PartialData 1 [(''name'', ''Ana'')])\<rparr>
   \<and> length (spawned (snd (handleChainedQuestions ''darwin'' threeQuestions
                             (scripted [Inr ''Ana'', Inl userCanceled])))) = 2
   \<and> fst (showZenityDialog ''Enter code 1:'' (default_value (codeQuestions ! 1)) (Some ''Question 2 of 3'') False
           (scripted [Inl (commandFailed ''zenity --entry --text="Enter code 1:" --title="Question 2 of 3"'' 1)]))
     = Inl (Error ''User cancelled the input dialog'')
   \<and> fst (handleChainedQuestions ''linux'' codeQuestions linuxCancelWorld)
     = Inl (Error ''Failed to read input from terminal'')
   \<and> spawned (snd (handleChainedQuestions ''linux'' codeQuestions linuxCancelWorld))
     = [DefaultShell ''which zenity'',
        DefaultShell ''zenity --entry --text="What is your name?" --title="Question 1 of 3"'',
        DefaultShell ''which zenity'',
        DefaultShell ''zenity --entry --text="Enter code 1:" --title="Question 2 of 3"'',
        DefaultShell ''which kdialog'',
        BinBash ''read -p "Enter code 1: []: " input && echo "${input:-}"'']\<close>
  by code_simp

subsection \<open>Colliding keys\<close>

text \<open>
  Claim C2 says that of two answers under the same derived key the later one is kept, in
  one entry. \<open>storeAll_last_write_wins\<close> and \<open>storeAll_distinct\<close> show it for every key
  but one, and the prompts \<^verbatim>\<open>What is your name?\<close> and \<^verbatim>\<open>Enter your name:\<close>
  show it at work. The prompts \<^verbatim>\<open>What is your __proto__?\<close> and
  \<^verbatim>\<open>Enter your __proto__:\<close> both derive the key \<^verbatim>\<open>__proto__\<close>; both are
  answered, the chain reports success for two questions, and its answers hold no entry
  at all.
\<close>

theorem chain_proto_key_keeps_no_answer:
  "fst (handleChainedQuestions ''darwin'' [ask ''What is your name?'', ask ''Enter your name:'']
          (scripted [Inr ''Ana'', Inr ''Bob'']))
     = Inr \<lparr>success = True, output' = Some ''name: Bob'', error = None,
            data = Some (AnswersData [(''name'', ''Bob'')] 2)\<rparr>
   \<and> generateAnswerKey ''What is your __proto__?'' 0 = ''__proto__''
   \<and> generateAnswerKey ''Enter your __proto__:'' 1 = ''__proto__''
   \<and> fst (handleChainedQuestions ''darwin'' protoQuestions (scripted [Inr ''first'', Inr ''second'']))
       = Inr \<lparr>success = True, output' = Some [], error = None, data = Some (AnswersData [] 2)\<rparr>"
  by code_simp

subsection \<open>Validation\<close>

text \<open>
  Claim C4. A dropdown request without options fails before any process is run.
  \<^item> Single question: when \<^verbatim>\<open>questions\<close> is absent or empty, the type is
    \<^verbatim>\<open>dropdown\<close> and \<^verbatim>\<open>options\<close> is absent or empty, \<open>execute\<close> returns a
    failure with an error message and leaves the world as it was.
  \<^item> In a chain: when the questions before \<open>i\<close> are all answered and question \<open>i\<close> is such
    a dropdown, the chain returns a failure with an error message, in the very world the
    questions before \<open>i\<close> left.
\<close>

theorem dropdown_without_options_fails_fast:
  "((questions a = None \<or> questions a = Some []) \<and> type a = Some ''dropdown'' \<and> noOptions (options a)
      \<longrightarrow> (\<exists>r. execute pf a w = (Inr r, w) \<and> \<not> success r \<and> error r \<noteq> None))
   \<and> (i < length qs \<and> fst (chainLoop pf (length qs) 0 (take i qs) [] w) = Inr r0
        \<and> data r0 = Some (AnswersData ans m)
        \<and> type (qs ! i) = Some ''dropdown'' \<and> noOptions (options (qs ! i))
      \<longrightarrow> (\<exists>r. handleChainedQuestions pf qs w = (Inr r, snd (chainLoop pf (length qs) 0 (take i qs) [] w))
               \<and> \<not> success r \<and> error r \<noteq> None))"
proof (intro conjI impI)
  assume h: "(questions a = None \<or> questions a = Some []) \<and> type a = Some ''dropdown'' \<and> noOptions (options a)"
  then show "\<exists>r. execute pf a w = (Inr r, w) \<and> \<not> success r \<and> error r \<noteq> None"
    by (auto simp: execute_def resolveInputType_def truthy_def failure_def Let_def)
next
  assume h: "i < length qs \<and> fst (chainLoop pf (length qs) 0 (take i qs) [] w) = Inr r0
        \<and> data r0 = Some (AnswersData ans m)
        \<and> type (qs ! i) = Some ''dropdown'' \<and> noOptions (options (qs ! i))"
  let ?wi = "snd (chainLoop pf (length qs) 0 (take i qs) [] w)"
  from h obtain msg where "askQuestion pf (length qs) i (qs ! i) ?wi = (Rejected (failure msg), ?wi)"
    using askQuestion_dropdown_no_options by blast
  moreover from h have "handleChainedQuestions pf qs w =
      chainLoop pf (length qs) i (qs ! i # drop (Suc i) qs) ans ?wi"
    using chain_reaches by blast
  ultimately have "handleChainedQuestions pf qs w = (Inr (failure msg), ?wi)" by simp
  then show "\<exists>r. handleChainedQuestions pf qs w = (Inr r, ?wi) \<and> \<not> success r \<and> error r \<noteq> None"
    by (simp add: failure_def)
qed

theorem dropdown_without_options_fails_fast_witness:
  "((questions (noArgs\<lparr>prompt := Some ''Pick a colour'', type := Some ''dropdown''\<rparr>) = None
      \<or> questions (noArgs\<lparr>prompt := Some ''Pick a colour'', type := Some ''dropdown''\<rparr>) = Some [])
    \<and> type (noArgs\<lparr>prompt := Some ''Pick a colour'', type := Some ''dropdown''\<rparr>) = Some ''dropdown''
    \<and> noOptions (options (noArgs\<lparr>prompt := Some ''Pick a colour'', type := Some ''dropdown''\<rparr>)))
   \<and> (\<exists>r. execute ''linux'' (noArgs\<lparr>prompt := Some ''Pick a colour'', type := Some ''dropdown''\<rparr>)
              (scripted [Inr ''/usr/bin/zenity'', Inr ''Ana''])
            = (Inr r, scripted [Inr ''/usr/bin/zenity'', Inr ''Ana'']) \<and> \<not> success r \<and> error r \<noteq> None)
   \<and> (1 < length [ask ''What is your name?'', dropdownWithoutOptions]
    \<and> fst (chainLoop ''linux'' (length [ask ''What is your name?'', dropdownWithoutOptions]) 0
             (take 1 [ask ''What is your name?'', dropdownWithoutOptions]) [] (scripted [Inr ''/usr/bin/zenity'', Inr ''Ana'']))
        = Inr \<lparr>success = True, output' = Some ''name: Ana'', error = None,
               data = Some (AnswersData [(''name'', ''Ana'')] 2)\<rparr>
    \<and> type ([ask ''What is your name?'', dropdownWithoutOptions] ! 1) = Some ''dropdown''
    \<and> noOptions (options ([ask ''What is your name?'', dropdownWithoutOptions] ! 1)))
   \<and> (\<exists>r. handleChainedQuestions ''linux'' [ask ''What is your name?'', dropdownWithoutOptions]
              (scripted [Inr ''/usr/bin/zenity'', Inr ''Ana''])
            = (Inr r, snd (chainLoop ''linux'' (length [ask ''What is your name?'', dropdownWithoutOptions]) 0
                             (take 1 [ask ''What is your name?'', dropdownWithoutOptions]) []
                             (scripted [Inr ''/usr/bin/zenity'', Inr ''Ana''])))
          \<and> \<not> success r \<and> error r \<noteq> None)"
proof -
  let ?a = "noArgs\<lparr>prompt := Some ''Pick a colour'', type := Some ''dropdown''\<rparr>"
  let ?qs = "[ask ''What is your name?'', dropdownWithoutOptions]"
  let ?w = "scripted [Inr ''/usr/bin/zenity'', Inr ''Ana'']"
  let ?r0 = "\<lparr>success = True, output' = Some ''name: Ana'', error = None,
               data = Some (AnswersData [(''name'', ''Ana'')] 2)\<rparr>"
  have a: "(questions ?a = None \<or> questions ?a = Some []) \<and> type ?a = Some ''dropdown''
           \<and> noOptions (options ?a)"
    by (simp add: noArgs_def noOptions_def)
  have q1: "1 < length ?qs" by simp
  have q2: "fst (chainLoop ''linux'' (length ?qs) 0 (take 1 ?qs) [] ?w) = Inr ?r0"
    by code_simp
  have q3: "data ?r0 = Some (AnswersData [(''name'', ''Ana'')] 2)" by simp
  have q4: "type (?qs ! 1) = Some ''dropdown'' \<and> noOptions (options (?qs ! 1))"
    by (simp add: dropdownWithoutOptions_def ask_def noOptions_def)
  note t = dropdown_without_options_fails_fast
    [of ?a "''linux''" ?w 1 ?qs ?r0 "[(''name'', ''Ana'')]" 2]
  from t a q1 q2 q3 q4 show ?thesis by blast
qed

text \<open>
  Claim C5. With no prompt (absent or empty) and no question (absent or empty list) the
  tool returns a failure with the message
  \<^verbatim>\<open>Either "prompt" or "questions" parameter is required\<close> and runs nothing; with a
  non-empty list of questions it runs the chain, whether or not a prompt is given too.
\<close>

theorem prompt_or_questions_required:
  \<open>(\<not> truthy (prompt a) \<and> (questions a = None \<or> questions a = Some [])
      \<longrightarrow> execute pf a w =
            (Inr \<lparr>success = False, output' = None,
                  error = Some ''Either "prompt" or "questions" parameter is required'',
                  data = None\<rparr>, w))
   \<and> (questions b = Some qs \<and> qs \<noteq> [] \<longrightarrow> execute pf b w = handleChainedQuestions pf qs w)\<close>
  by (auto simp: execute_def failure_def)

theorem prompt_or_questions_required_witness:
  \<open>(\<not> truthy (prompt noArgs) \<and> (questions noArgs = None \<or> questions noArgs = Some []))
   \<and> execute ''darwin'' noArgs (scripted [Inr ''Ana'']) =
        (Inr \<lparr>success = False, output' = None,
              error = Some ''Either "prompt" or "questions" parameter is required'',
              data = None\<rparr>, scripted [Inr ''Ana''])
   \<and> (questions (noArgs\<lparr>prompt := Some ''Ignored?'', questions := Some [ask ''What is your name?'']\<rparr>)
         = Some [ask ''What is your name?'']
       \<and> [ask ''What is your name?''] \<noteq> [])
   \<and> execute ''darwin'' (noArgs\<lparr>prompt := Some ''Ignored?'', questions := Some [ask ''What is your name?'']\<rparr>)
        (scripted [Inr ''Ana''])
      = handleChainedQuestions ''darwin'' [ask ''What is your name?''] (scripted [Inr ''Ana''])\<close>
proof -
  let ?b = "noArgs\<lparr>prompt := Some ''Ignored?'', questions := Some [ask ''What is your name?'']\<rparr>"
  have a: "\<not> truthy (prompt noArgs) \<and> (questions noArgs = None \<or> questions noArgs = Some [])"
    by (simp add: noArgs_def truthy_def)
  have b: "questions ?b = Some [ask ''What is your name?''] \<and> [ask ''What is your name?''] \<noteq> []"
    by simp
  note t = prompt_or_questions_required
    [of noArgs "''darwin''" "scripted [Inr ''Ana'']" ?b "[ask ''What is your name?'']"]
  from t a b show ?thesis by blast
qed

text \<open>
  Claim C6. When the questions before \<open>i\<close> are all answered and question \<open>i\<close> has no prompt
  (absent or empty), the chain returns at once a failure that names the question and has
  no \<^verbatim>\<open>data\<close>: the answers given so far are not returned. The world is the one the
  questions before \<open>i\<close> left. A cancellation at the same place does return them, in
  \<^verbatim>\<open>partialAnswers\<close>.
\<close>

theorem chain_missing_prompt_aborts:
  \<open>(i < length qs \<and> fst (chainLoop pf (length qs) 0 (take i qs) [] w) = Inr r0
      \<and> data r0 = Some (AnswersData ans m) \<and> \<not> truthy (prompt (qs ! i))
     \<longrightarrow> handleChainedQuestions pf qs w =
           (Inr \<lparr>success = False, output' = None,
                 error = Some (''Question '' @ showNat (i + 1) @ '' is missing required "prompt" field''),
                 data = None\<rparr>,
            snd (chainLoop pf (length qs) 0 (take i qs) [] w)))
   \<and> (i < length qs \<and> fst (chainLoop pf (length qs) 0 (take i qs) [] w) = Inr r0
      \<and> data r0 = Some (AnswersData ans m)
      \<and> fst (askQuestion pf (length qs) i (qs ! i) (snd (chainLoop pf (length qs) 0 (take i qs) [] w))) = Thrown e
      \<and> str_includes (message e) ''cancelled''
     \<longrightarrow> (\<exists>r. fst (handleChainedQuestions pf qs w) = Inr r \<and> data r = Some (PartialData i ans)))\<close>
proof (intro conjI impI)
  assume h: \<open>i < length qs \<and> fst (chainLoop pf (length qs) 0 (take i qs) [] w) = Inr r0
      \<and> data r0 = Some (AnswersData ans m) \<and> \<not> truthy (prompt (qs ! i))\<close>
  let ?wi = "snd (chainLoop pf (length qs) 0 (take i qs) [] w)"
  from h have "handleChainedQuestions pf qs w = chainLoop pf (length qs) i (qs ! i # drop (Suc i) qs) ans ?wi"
    using chain_reaches by blast
  moreover from h have "askQuestion pf (length qs) i (qs ! i) ?wi =
     (Rejected (failure (''Question '' @ showNat (i + 1) @ '' is missing required '' @ [dquote] @ ''prompt'' @ [dquote] @ '' field'')), ?wi)"
    using askQuestion_no_prompt by blast
  ultimately show \<open>handleChainedQuestions pf qs w =
           (Inr \<lparr>success = False, output' = None,
                 error = Some (''Question '' @ showNat (i + 1) @ '' is missing required "prompt" field''),
                 data = None\<rparr>, ?wi)\<close>
    by (simp add: failure_def)
next
  assume h: "i < length qs \<and> fst (chainLoop pf (length qs) 0 (take i qs) [] w) = Inr r0
      \<and> data r0 = Some (AnswersData ans m)
      \<and> fst (askQuestion pf (length qs) i (qs ! i) (snd (chainLoop pf (length qs) 0 (take i qs) [] w))) = Thrown e
      \<and> str_includes (message e) ''cancelled''"
  then have "handleChainedQuestions pf qs w =
           (Inr \<lparr>success = False, output' = None,
                 error = Some (''User cancelled at question '' @ showNat (i + 1)),
                 data = Some (PartialData i ans)\<rparr>,
            snd (askQuestion pf (length qs) i (qs ! i) (snd (chainLoop pf (length qs) 0 (take i qs) [] w))))"
    using chain_cancel_at by blast
  then show "\<exists>r. fst (handleChainedQuestions pf qs w) = Inr r \<and> data r = Some (PartialData i ans)"
    by simp
qed

text \<open>
  Two runs: a chain whose second question has an empty prompt, after a first answer
  \<^verbatim>\<open>Ana\<close>; and the three questions of the specification with the second cancelled.
\<close>

theorem chain_missing_prompt_aborts_witness:
  \<open>(1 < length [ask ''What is your name?'', ask []]
    \<and> fst (chainLoop ''darwin'' (length [ask ''What is your name?'', ask []]) 0
             (take 1 [ask ''What is your name?'', ask []]) [] (scripted [Inr ''Ana'']))
        = Inr \<lparr>success = True, output' = Some ''name: Ana'', error = None,
               data = Some (AnswersData [(''name'', ''Ana'')] 2)\<rparr>
    \<and> \<not> truthy (prompt ([ask ''What is your name?'', ask []] ! 1)))
   \<and> handleChainedQuestions ''darwin'' [ask ''What is your name?'', ask []] (scripted [Inr ''Ana'']) =
        (Inr \<lparr>success = False, output' = None,
              error = Some (''Question '' @ showNat (1 + 1) @ '' is missing required "prompt" field''),
              data = None\<rparr>,
         snd (chainLoop ''darwin'' (length [ask ''What is your name?'', ask []]) 0
                (take 1 [ask ''What is your name?'', ask []]) [] (scripted [Inr ''Ana''])))
   \<and> (1 < length threeQuestions
    \<and> fst (chainLoop ''darwin'' (length threeQuestions) 0 (take 1 threeQuestions) []
            (scripted [Inr ''Ana'', Inl userCanceled]))
       = Inr \<lparr>success = True, output' = Some ''name: Ana'', error = None,
              data = Some (AnswersData [(''name'', ''Ana'')] 3)\<rparr>
    \<and> fst (askQuestion ''darwin'' (length threeQuestions) 1 (threeQuestions ! 1)
            (snd (chainLoop ''darwin'' (length threeQuestions) 0 (take 1 threeQuestions) []
                    (scripted [Inr ''Ana'', Inl userCanceled]))))
       = Thrown (Error ''User cancelled the input dialog'')
    \<and> str_includes (message (Error ''User cancelled the input dialog'')) ''cancelled'')
   \<and> (\<exists>r. fst (handleChainedQuestions ''darwin'' threeQuestions (scripted [Inr ''Ana'', Inl userCanceled]))
             = Inr r
          \<and> data r = Some (PartialData 1 [(''name'', ''Ana'')]))\<close>
proof -
  let ?qs = "[ask ''What is your name?'', ask []]"
  let ?w = "scripted [Inr ''Ana'']"
  let ?r0 = "\<lparr>success = True, output' = Some ''name: Ana'', error = None,
               data = Some (AnswersData [(''name'', ''Ana'')] 2)\<rparr>"
  let ?w' = "scripted [Inr ''Ana'', Inl userCanceled]"
  let ?r0' = "\<lparr>success = True, output' = Some ''name: Ana'', error = None,
               data = Some (AnswersData [(''name'', ''Ana'')] 3)\<rparr>"
  have a1: "1 < length ?qs" by simp
  have a2: "fst (chainLoop ''darwin'' (length ?qs) 0 (take 1 ?qs) [] ?w) = Inr ?r0"
    by code_simp
  have a3: "data ?r0 = Some (AnswersData [(''name'', ''Ana'')] 2)" by simp
  have a4: "\<not> truthy (prompt (?qs ! 1))"
    by (simp add: ask_def truthy_def)
  have b1: "1 < length threeQuestions"
    by code_simp
  have b2: "fst (chainLoop ''darwin'' (length threeQuestions) 0 (take 1 threeQuestions) [] ?w') = Inr ?r0'"
    by code_simp
  have b3: "data ?r0' = Some (AnswersData [(''name'', ''Ana'')] 3)" by simp
  have b4: "fst (askQuestion ''darwin'' (length threeQuestions) 1 (threeQuestions ! 1)
            (snd (chainLoop ''darwin'' (length threeQuestions) 0 (take 1 threeQuestions) [] ?w')))
       = Thrown (Error ''User cancelled the input dialog'')"
    by code_simp
  have b5: "str_includes (message (Error ''User cancelled the input dialog'')) ''cancelled''"
    by code_simp
  note ta = chain_missing_prompt_aborts
    [of 1 ?qs "''darwin''" ?w ?r0 "[(''name'', ''Ana'')]" 2]
  note tb = chain_missing_prompt_aborts
    [of 1 threeQuestions "''darwin''" ?w' ?r0' "[(''name'', ''Ana'')]" 3 "Error ''User cancelled the input dialog''"]
  from ta a1 a2 a3 a4 have A: \<open>handleChainedQuestions ''darwin'' ?qs ?w =
        (Inr \<lparr>success = False, output' = None,
              error = Some (''Question '' @ showNat (1 + 1) @ '' is missing required "prompt" field''),
              data = None\<rparr>,
         snd (chainLoop ''darwin'' (length ?qs) 0 (take 1 ?qs) [] ?w))\<close>
    by blast
  from tb b1 b2 b3 b4 b5 have B: "\<exists>r. fst (handleChainedQuestions ''darwin'' threeQuestions ?w') = Inr r
          \<and> data r = Some (PartialData 1 [(''name'', ''Ana'')])"
    by blast
  from A B a1 a2 a4 b1 b2 b4 b5 show ?thesis by blast
qed

end
